theory Spec2Isabelle
  imports Complex_Main
begin

section \<open>JavaScript numbers\<close>

text \<open>
  Every quantity of the renderer is a JavaScript number. The model keeps the three
  kinds of value whose behaviour the code depends on: \<open>NaN\<close> (what \<open>parseFloat\<close>
  gives for a missing column), the two infinities (what a division by zero gives, and
  the start value of \<open>minDistance\<close>), and the finite values. Finite values are real
  numbers: rounding, overflow to infinity and the sign of zero are left out, so
  \<open>x / 0\<close> is \<open>+Infinity\<close> for every positive \<open>x\<close>.
\<close>

datatype number = NaN | PosInf | NegInf | Num real

instantiation number :: "{uminus, plus, minus, times, inverse, ord}"
begin

fun uminus_number :: "number \<Rightarrow> number" where
  "uminus_number NaN = NaN"
| "uminus_number PosInf = NegInf"
| "uminus_number NegInf = PosInf"
| "uminus_number (Num a) = Num (- a)"

fun plus_number :: "number \<Rightarrow> number \<Rightarrow> number" where
  "plus_number NaN y = NaN"
| "plus_number x NaN = NaN"
| "plus_number (Num a) (Num b) = Num (a + b)"
| "plus_number PosInf NegInf = NaN"
| "plus_number NegInf PosInf = NaN"
| "plus_number PosInf y = PosInf"
| "plus_number NegInf y = NegInf"
| "plus_number (Num a) y = y"

definition minus_number :: "number \<Rightarrow> number \<Rightarrow> number" where
  "minus_number x y = x + (- y)"

fun times_number :: "number \<Rightarrow> number \<Rightarrow> number" where
  "times_number NaN y = NaN"
| "times_number x NaN = NaN"
| "times_number (Num a) (Num b) = Num (a * b)"
| "times_number PosInf (Num b) = (if b = 0 then NaN else if 0 < b then PosInf else NegInf)"
| "times_number NegInf (Num b) = (if b = 0 then NaN else if 0 < b then NegInf else PosInf)"
| "times_number (Num a) PosInf = (if a = 0 then NaN else if 0 < a then PosInf else NegInf)"
| "times_number (Num a) NegInf = (if a = 0 then NaN else if 0 < a then NegInf else PosInf)"
| "times_number PosInf PosInf = PosInf"
| "times_number PosInf NegInf = NegInf"
| "times_number NegInf PosInf = NegInf"
| "times_number NegInf NegInf = PosInf"

fun divide_number :: "number \<Rightarrow> number \<Rightarrow> number" where
  "divide_number NaN y = NaN"
| "divide_number x NaN = NaN"
| "divide_number (Num a) (Num b) =
     (if b = 0 then (if a = 0 then NaN else if 0 < a then PosInf else NegInf)
      else Num (a / b))"
| "divide_number (Num a) y = Num 0"
| "divide_number PosInf (Num b) = (if 0 \<le> b then PosInf else NegInf)"
| "divide_number NegInf (Num b) = (if 0 \<le> b then NegInf else PosInf)"
| "divide_number x y = NaN"

definition inverse_number :: "number \<Rightarrow> number" where
  "inverse_number x = Num 1 div x"

fun less_eq_number :: "number \<Rightarrow> number \<Rightarrow> bool" where
  "less_eq_number NaN y = False"
| "less_eq_number x NaN = False"
| "less_eq_number (Num a) (Num b) = (a \<le> b)"
| "less_eq_number NegInf y = True"
| "less_eq_number x PosInf = True"
| "less_eq_number x y = False"

fun less_number :: "number \<Rightarrow> number \<Rightarrow> bool" where
  "less_number NaN y = False"
| "less_number x NaN = False"
| "less_number (Num a) (Num b) = (a < b)"
| "less_number PosInf y = False"
| "less_number x NegInf = False"
| "less_number x y = True"

instance ..

end

text \<open>
  \<open>a >= b\<close> of the source is written \<open>a \<ge> b\<close>, which HOL reads as \<open>b \<le> a\<close>: both are
  false as soon as one side is \<open>NaN\<close>.
\<close>

fun isNaN :: "number \<Rightarrow> bool" where
  "isNaN NaN = True"
| "isNaN x = False"

fun Math_abs :: "number \<Rightarrow> number" where
  "Math_abs NaN = NaN"
| "Math_abs PosInf = PosInf"
| "Math_abs NegInf = PosInf"
| "Math_abs (Num a) = Num \<bar>a\<bar>"

fun Math_min :: "number \<Rightarrow> number \<Rightarrow> number" where
  "Math_min NaN y = NaN"
| "Math_min x NaN = NaN"
| "Math_min x y = (if x \<le> y then x else y)"

fun Math_max :: "number \<Rightarrow> number \<Rightarrow> number" where
  "Math_max NaN y = NaN"
| "Math_max x NaN = NaN"
| "Math_max x y = (if x \<le> y then y else x)"

fun Math_ceil :: "number \<Rightarrow> number" where
  "Math_ceil (Num a) = Num (of_int \<lceil>a\<rceil>)"
| "Math_ceil x = x"

text \<open>
  \<open>Math.pow(x, y)\<close> is only called with the literal exponents 0.1903 and 0.286, so the
  exponent is a real and the cases are those of a positive exponent that is not an
  integer: a negative base gives \<open>NaN\<close>, and \<open>-Infinity\<close> gives \<open>+Infinity\<close>.
\<close>

fun Math_pow :: "number \<Rightarrow> real \<Rightarrow> number" where
  "Math_pow NaN y = NaN"
| "Math_pow PosInf y = PosInf"
| "Math_pow NegInf y = PosInf"
| "Math_pow (Num a) y = (if a < 0 then NaN else Num (a powr y))"

fun Math_log :: "number \<Rightarrow> number" where
  "Math_log NaN = NaN"
| "Math_log PosInf = PosInf"
| "Math_log NegInf = NaN"
| "Math_log (Num a) = (if a < 0 then NaN else if a = 0 then NegInf else Num (ln a))"

fun Math_sin :: "number \<Rightarrow> number" where
  "Math_sin (Num a) = Num (sin a)"
| "Math_sin x = NaN"

fun Math_cos :: "number \<Rightarrow> number" where
  "Math_cos (Num a) = Num (cos a)"
| "Math_cos x = NaN"

definition Math_PI :: number where
  "Math_PI = Num pi"


section \<open>Data model\<close>

text \<open>
  A row of the parsed sounding. The parser stores five more columns (relative humidity,
  mixing ratio and three potential temperatures); no function modelled here reads them.
\<close>

record level =
  pressure :: number
  height :: number
  temp :: number
  dewpoint :: number
  windDir :: number
  windSpeed :: number

text \<open>
  The metadata fields that \<open>drawTitle\<close> reads. \<open>None\<close> is an absent property.
\<close>

record metadata =
  stationName :: "string option"
  observationTime :: "string option"
  latitude :: "number option"
  longitude :: "number option"

text \<open>
  The object the parser returns and \<open>draw\<close> receives. \<open>data = None\<close> is an object
  without a \<open>data\<close> property; \<open>Some []\<close> is the empty array, which JavaScript
  counts as true in a condition.
\<close>

record sounding =
  data :: "level list option"
  metadata :: "metadata option"

record margins =
  margin_top :: number
  margin_right :: number
  margin_bottom :: number
  margin_left :: number

text \<open>
  The fields of a \<open>SkewTDiagram\<close>. \<open>plotWidth\<close> and \<open>plotHeight\<close> are the fields
  \<open>width\<close> and \<open>height\<close> of the class (renamed: a row has a \<open>height\<close> too);
  \<open>canvasWidth\<close> and \<open>canvasHeight\<close> are \<open>canvas.width\<close> and \<open>canvas.height\<close>.
\<close>

record diagram =
  canvasWidth :: number
  canvasHeight :: number
  margin :: margins
  plotWidth :: number
  plotHeight :: number
  pMin :: number
  pMax :: number
  hMin :: number
  hMax :: number
  tMin :: number
  tMax :: number
  skew :: number
  soundingData :: "sounding option"

text \<open>The constructor; the canvas size is an unsigned integer attribute of the element.\<close>

definition SkewTDiagram :: "nat \<Rightarrow> nat \<Rightarrow> diagram" where
  "SkewTDiagram cw ch =
     (let m = \<lparr>margin_top = Num 50, margin_right = Num 150,
                margin_bottom = Num 50, margin_left = Num 100\<rparr>
      in \<lparr>canvasWidth = Num (of_nat cw), canvasHeight = Num (of_nat ch),
          margin = m,
          plotWidth = Num (of_nat cw) - margin_left m - margin_right m,
          plotHeight = Num (of_nat ch) - margin_top m - margin_bottom m,
          pMin = Num 100, pMax = Num 1050,
          hMin = Num 0, hMax = Num 4500,
          tMin = Num (- 60), tMax = Num 50,
          skew = Num 35,
          soundingData = None\<rparr>)"

text \<open>The one exception the modelled code can raise: reading a property of \<open>undefined\<close>.\<close>

datatype error = TypeError


section \<open>Coordinate transforms\<close>

definition setHeightRange :: "diagram \<Rightarrow> number \<Rightarrow> number \<Rightarrow> diagram" where
  "setHeightRange d minHeight maxHeight = d\<lparr>hMin := minHeight, hMax := maxHeight\<rparr>"

definition heightToY :: "diagram \<Rightarrow> number \<Rightarrow> number" where
  "heightToY d h =
     (let ratio = (h - hMin d) / (hMax d - hMin d)
      in margin_top (margin d) + plotHeight d * (Num 1 - ratio))"

text \<open>The standard-atmosphere fallback of \<open>pressureToHeight\<close>.\<close>

definition standardAtmosphere :: "number \<Rightarrow> number" where
  "standardAtmosphere p = Num 44330 * (Num 1 - Math_pow (p / Num 1013.25) 0.1903)"

text \<open>
  The search loop of \<open>pressureToHeight\<close> over the pairs \<open>data[i]\<close>, \<open>data[i + 1]\<close>:
  the value returned from inside the loop, or \<open>None\<close> when the loop runs to its end.
\<close>

fun bracketSearch :: "level list \<Rightarrow> number \<Rightarrow> number option" where
  "bracketSearch (a # b # rest) p =
     (if pressure a \<ge> p \<and> pressure b \<le> p then
        (let p1 = pressure a; p2 = pressure b; h1 = height a; h2 = height b;
             ratio = (p - p1) / (p2 - p1)
         in Some (h1 + ratio * (h2 - h1)))
      else bracketSearch (b # rest) p)"
| "bracketSearch rows p = None"

text \<open>
  After the loop the code reads \<open>data[0].pressure\<close>; on an empty array \<open>data[0]\<close> is
  \<open>undefined\<close> and the read raises a \<open>TypeError\<close>.
\<close>

definition pressureToHeight :: "diagram \<Rightarrow> number \<Rightarrow> error + number" where
  "pressureToHeight d p =
     (case soundingData d of
        None \<Rightarrow> Inr (standardAtmosphere p)
      | Some sd \<Rightarrow>
          (case data sd of
             None \<Rightarrow> Inr (standardAtmosphere p)
           | Some rows \<Rightarrow>
               (case bracketSearch rows p of
                  Some h \<Rightarrow> Inr h
                | None \<Rightarrow>
                    (case rows of
                       [] \<Rightarrow> Inl TypeError
                     | r # rs \<Rightarrow>
                         if p \<ge> pressure r then Inr (height r)
                         else if p \<le> pressure (last rows) then Inr (height (last rows))
                         else Inr (Num 0)))))"

definition pressureToY :: "diagram \<Rightarrow> number \<Rightarrow> error + number" where
  "pressureToY d p =
     (case pressureToHeight d p of
        Inl e \<Rightarrow> Inl e
      | Inr h \<Rightarrow> Inr (heightToY d h))"

text \<open>The two local constants of \<open>tempToX\<close>, and their sum.\<close>

definition baseX :: "diagram \<Rightarrow> number \<Rightarrow> number" where
  "baseX d t =
     (let ratio = (t - tMin d) / (tMax d - tMin d)
      in margin_left (margin d) + plotWidth d * ratio)"

definition skewOffset :: "diagram \<Rightarrow> number \<Rightarrow> number" where
  "skewOffset d p =
     (let logP = Math_log p; logPMax = Math_log (pMax d)
      in skew d * (logPMax - logP))"

definition tempToX :: "diagram \<Rightarrow> number \<Rightarrow> number \<Rightarrow> number" where
  "tempToX d t p = baseX d t + skewOffset d p"


section \<open>The canvas\<close>

text \<open>
  The 2D context is modelled by the calls and assignments made on it, in order. A text
  is kept as the expression that builds it: \<open>NumStr h\<close> is the number \<open>h\<close> turned into a
  string by \<open>+\<close>, \<open>Fixed v 2\<close> is \<open>v.toFixed(2)\<close>.
\<close>

datatype jstext = Str string | NumStr number | Fixed number nat | Cat jstext jstext

datatype cmd =
    ClearRect number number number number
  | FillRect number number number number
  | StrokeRect number number number number
  | BeginPath
  | ClosePath
  | MoveTo number number
  | LineTo number number
  | Arc number number number number number
  | Stroke
  | Fill
  | FillText jstext number number
  | Save
  | Restore
  | Translate number number
  | Rotate number
  | StrokeStyle string
  | FillStyle string
  | LineWidth number
  | Font string
  | TextAlign string

text \<open>
  What a drawing method does: \<open>None\<close> when it never returns, \<open>Some (Inl e)\<close> when it
  raises \<open>e\<close>, \<open>Some (Inr cs)\<close> when it returns after the calls \<open>cs\<close>.
\<close>

type_synonym outcome = "(error + cmd list) option"

definition emit :: "cmd list \<Rightarrow> outcome" where
  "emit cs = Some (Inr cs)"

text \<open>One statement after another: the second runs only when the first returns.\<close>

definition seq :: "outcome \<Rightarrow> outcome \<Rightarrow> outcome" where
  "seq a b =
     (case a of
        None \<Rightarrow> None
      | Some (Inl e) \<Rightarrow> Some (Inl e)
      | Some (Inr cs) \<Rightarrow>
          (case b of
             None \<Rightarrow> None
           | Some (Inl e) \<Rightarrow> Some (Inl e)
           | Some (Inr cs') \<Rightarrow> Some (Inr (cs @ cs'))))"

text \<open>\<open>forEach\<close> with a callback that may raise.\<close>

fun forEach :: "('a \<Rightarrow> error + cmd list) \<Rightarrow> 'a list \<Rightarrow> error + cmd list" where
  "forEach f [] = Inr []"
| "forEach f (x # xs) =
     (case f x of
        Inl e \<Rightarrow> Inl e
      | Inr cs \<Rightarrow> (case forEach f xs of Inl e \<Rightarrow> Inl e | Inr cs' \<Rightarrow> Inr (cs @ cs')))"


section \<open>Height axis and isobars\<close>

text \<open>The body of the loop of \<open>drawHeightAxis\<close>.\<close>

definition heightTick :: "diagram \<Rightarrow> number \<Rightarrow> cmd list" where
  "heightTick d h =
     (let y = heightToY d h; x = margin_left (margin d)
      in [BeginPath, MoveTo x y, LineTo (x + Num 10) y, Stroke,
          TextAlign ''right'',
          FillText (Cat (NumStr h) (Str '' m'')) (x - Num 5) (y + Num 4)])"

partial_function (option) heightAxisLoop :: "diagram \<Rightarrow> number \<Rightarrow> number \<Rightarrow> cmd list option" where
  "heightAxisLoop d interval h =
     (if h \<le> hMax d then
        Option.bind (heightAxisLoop d interval (h + interval))
          (\<lambda>rest. Some (heightTick d h @ rest))
      else Some [])"

definition heightInterval :: "diagram \<Rightarrow> number" where
  "heightInterval d =
     (let heightRange = hMax d - hMin d
      in if heightRange \<le> Num 2000 then Num 200
         else if heightRange \<le> Num 5000 then Num 500
         else if heightRange \<le> Num 10000 then Num 1000
         else if heightRange \<le> Num 20000 then Num 2000
         else Num 5000)"

definition drawHeightAxis :: "diagram \<Rightarrow> cmd list option" where
  "drawHeightAxis d =
     (let interval = heightInterval d
      in Option.bind (heightAxisLoop d interval (Math_ceil (hMin d / interval) * interval))
           (\<lambda>ticks. Some ([LineWidth (Num 1), Font ''bold 11px Arial'',
                            FillStyle ''#1a202c'', StrokeStyle ''#cbd5e0'']
                           @ ticks @ [TextAlign ''left''])))"

text \<open>
  The callback of the two \<open>forEach\<close> calls of \<open>drawPressureLines\<close>; only the major lines
  carry a label.
\<close>

definition pressureLine :: "diagram \<Rightarrow> bool \<Rightarrow> number \<Rightarrow> error + cmd list" where
  "pressureLine d labelled p =
     (if p < pMin d \<or> p > pMax d then Inr []
      else case pressureToHeight d p of
             Inl e \<Rightarrow> Inl e
           | Inr h \<Rightarrow>
               if h < hMin d \<or> h > hMax d then Inr []
               else (let y = heightToY d h;
                         x1 = margin_left (margin d);
                         x2 = margin_left (margin d) + plotWidth d
                     in if y < margin_top (margin d) \<or> y > margin_top (margin d) + plotHeight d
                        then Inr []
                        else Inr ([BeginPath, MoveTo x1 y, LineTo x2 y, Stroke]
                                  @ (if labelled
                                     then [TextAlign ''left'',
                                           FillText (Cat (NumStr p) (Str '' mb''))
                                             (x2 + Num 5) (y + Num 4)]
                                     else []))))"

definition pressures :: "number list" where
  "pressures = map Num [1000, 925, 850, 700, 500, 400, 300, 250, 200, 150, 100]"

definition minorPressures :: "number list" where
  "minorPressures = map Num [975, 950, 900, 875, 825, 800, 775, 750, 725, 675, 650, 625, 600,
                             575, 550, 525, 475, 450, 425, 375, 350, 325, 275, 225, 175, 125]"

definition drawPressureLines :: "diagram \<Rightarrow> error + cmd list" where
  "drawPressureLines d =
     (case forEach (pressureLine d True) pressures of
        Inl e \<Rightarrow> Inl e
      | Inr major \<Rightarrow>
          (case forEach (pressureLine d False) minorPressures of
             Inl e \<Rightarrow> Inl e
           | Inr minor \<Rightarrow>
               Inr ([LineWidth (Num 1), Font ''12px Arial'',
                     StrokeStyle ''#333333'', FillStyle ''#333333'']
                    @ major @ [StrokeStyle ''#cccccc''] @ minor)))"


section \<open>Reference curves\<close>

text \<open>
  The loop counters \<open>t\<close>, \<open>theta\<close> and \<open>thetaE\<close> start at an integer literal and move by
  10, so they are integers; \<open>t % 20 === 0\<close> is divisibility by 20.
\<close>

definition isotherm :: "diagram \<Rightarrow> int \<Rightarrow> error + cmd list" where
  "isotherm d t =
     (if Num (of_int t) < tMin d - Num 20 \<or> Num (of_int t) > tMax d + Num 20 then Inr []
      else (let isMajor = (t mod 20 = 0);
                x1 = tempToX d (Num (of_int t)) (pMax d);
                x2 = tempToX d (Num (of_int t)) (pMin d)
            in case pressureToY d (pMax d) of
                 Inl e \<Rightarrow> Inl e
               | Inr y1 \<Rightarrow>
                   (case pressureToY d (pMin d) of
                      Inl e \<Rightarrow> Inl e
                    | Inr y2 \<Rightarrow>
                        Inr ([StrokeStyle (if isMajor then ''#00aa00'' else ''#90EE90''),
                              FillStyle ''#006600'',
                              BeginPath, MoveTo x1 y1, LineTo x2 y2, Stroke]
                             @ (if isMajor
                                then [Save, Translate x1 (y1 + Num 20),
                                      Rotate (- Math_PI / Num 4),
                                      FillText (Cat (NumStr (Num (of_int t)))
                                                  (Str [CHR 0xB0, CHR ''C'']))
                                        (Num 0) (Num 0),
                                      Restore]
                                else [])))))"

function isothermLoop :: "diagram \<Rightarrow> int \<Rightarrow> error + cmd list" where
  "isothermLoop d t =
     (if t \<le> 50 then
        (case isotherm d t of
           Inl e \<Rightarrow> Inl e
         | Inr cs \<Rightarrow>
             (case isothermLoop d (t + 10) of Inl e \<Rightarrow> Inl e | Inr cs' \<Rightarrow> Inr (cs @ cs')))
      else Inr [])"
  by pat_completeness auto
termination
  by (relation "measure (\<lambda>(d, t). nat (60 - t))") auto

definition drawIsotherms :: "diagram \<Rightarrow> error + cmd list" where
  "drawIsotherms d =
     (case isothermLoop d (- 100) of
        Inl e \<Rightarrow> Inl e
      | Inr cs \<Rightarrow> Inr ([LineWidth (Num 1), Font ''11px Arial''] @ cs))"

text \<open>The temperature on a dry adiabat (Poisson's equation) and on a moist one.\<close>

definition dryAdiabatT :: "number \<Rightarrow> number \<Rightarrow> number" where
  "dryAdiabatT theta p = theta * Math_pow (p / Num 1000) 0.286 - Num 273.15"

definition moistAdiabatT :: "number \<Rightarrow> number \<Rightarrow> number" where
  "moistAdiabatT thetaE p =
     thetaE * Math_pow (p / Num 1000) 0.286 - Num 273.15 - (Num 1050 - p) * Num 0.02"

text \<open>
  The inner loop of \<open>drawDryAdiabats\<close> and of \<open>drawMoistAdiabats\<close>, which differ only
  in the temperature \<open>tOf p\<close>: \<open>for (let p = this.pMax; p >= this.pMin; p -= 5)\<close>. The
  \<open>continue\<close> of a point outside the temperature band goes on to \<open>p - 5\<close> with
  \<open>firstPoint\<close> as it was.
\<close>

partial_function (option) adiabatSweep ::
  "diagram \<Rightarrow> (number \<Rightarrow> number) \<Rightarrow> number \<Rightarrow> bool \<Rightarrow> (error + cmd list) option" where
  "adiabatSweep d tOf p firstPoint =
     (if p \<ge> pMin d then
        (let t = tOf p
         in if t < tMin d - Num 20 \<or> t > tMax d + Num 40
            then adiabatSweep d tOf (p - Num 5) firstPoint
            else (case pressureToY d p of
                    Inl e \<Rightarrow> Some (Inl e)
                  | Inr y \<Rightarrow>
                      Option.bind (adiabatSweep d tOf (p - Num 5) False)
                        (\<lambda>r. case r of
                               Inl e \<Rightarrow> Some (Inl e)
                             | Inr rest \<Rightarrow>
                                 Some (Inr ((if firstPoint then MoveTo (tempToX d t p) y
                                             else LineTo (tempToX d t p) y) # rest)))))
      else Some (Inr []))"

function dryAdiabatLoop :: "diagram \<Rightarrow> int \<Rightarrow> outcome" where
  "dryAdiabatLoop d theta =
     (if theta \<le> 500 then
        seq (emit [BeginPath])
          (seq (adiabatSweep d (dryAdiabatT (Num (of_int theta))) (pMax d) True)
             (seq (emit [Stroke]) (dryAdiabatLoop d (theta + 10))))
      else emit [])"
  by pat_completeness auto
termination
  by (relation "measure (\<lambda>(d, theta). nat (510 - theta))") auto

definition drawDryAdiabats :: "diagram \<Rightarrow> outcome" where
  "drawDryAdiabats d =
     seq (emit [StrokeStyle ''rgba(255, 140, 0, 0.4)'', LineWidth (Num 1)])
       (dryAdiabatLoop d 200)"

function moistAdiabatLoop :: "diagram \<Rightarrow> int \<Rightarrow> outcome" where
  "moistAdiabatLoop d thetaE =
     (if thetaE \<le> 380 then
        seq (emit [BeginPath])
          (seq (adiabatSweep d (moistAdiabatT (Num (of_int thetaE))) (pMax d) True)
             (seq (emit [Stroke]) (moistAdiabatLoop d (thetaE + 10))))
      else emit [])"
  by pat_completeness auto
termination
  by (relation "measure (\<lambda>(d, thetaE). nat (390 - thetaE))") auto

definition drawMoistAdiabats :: "diagram \<Rightarrow> outcome" where
  "drawMoistAdiabats d =
     seq (emit [StrokeStyle ''rgba(0, 100, 255, 0.3)'', LineWidth (Num 1)])
       (moistAdiabatLoop d 280)"

text \<open>The dewpoint of mixing ratio \<open>w\<close> at pressure \<open>p\<close> (inverted Magnus formula).\<close>

definition mixingRatioTd :: "number \<Rightarrow> number \<Rightarrow> number" where
  "mixingRatioTd w p =
     (let e = (w * p) / (Num 621.97 + w)
      in Num 243.5 * Math_log (e / Num 6.112) / (Num 17.67 - Math_log (e / Num 6.112)))"

partial_function (option) mixingRatioSweep ::
  "diagram \<Rightarrow> number \<Rightarrow> number \<Rightarrow> bool \<Rightarrow> (error + cmd list) option" where
  "mixingRatioSweep d w p firstPoint =
     (if p \<ge> Num 600 then
        (let td = mixingRatioTd w p
         in if td < tMin d - Num 20 \<or> td > tMax d + Num 20
            then mixingRatioSweep d w (p - Num 10) firstPoint
            else (case pressureToY d p of
                    Inl e \<Rightarrow> Some (Inl e)
                  | Inr y \<Rightarrow>
                      if tempToX d td p < margin_left (margin d)
                         \<or> tempToX d td p > margin_left (margin d) + plotWidth d
                      then mixingRatioSweep d w (p - Num 10) firstPoint
                      else Option.bind (mixingRatioSweep d w (p - Num 10) False)
                             (\<lambda>r. case r of
                                    Inl e \<Rightarrow> Some (Inl e)
                                  | Inr rest \<Rightarrow>
                                      Some (Inr ((if firstPoint then MoveTo (tempToX d td p) y
                                                  else LineTo (tempToX d td p) y) # rest)))))
      else Some (Inr []))"

definition mixingRatios :: "number list" where
  "mixingRatios = map Num [0.5, 1, 2, 4, 8, 16, 32]"

fun mixingRatioLoop :: "diagram \<Rightarrow> number list \<Rightarrow> outcome" where
  "mixingRatioLoop d [] = emit []"
| "mixingRatioLoop d (w # ws) =
     seq (emit [BeginPath])
       (seq (mixingRatioSweep d w (pMax d) True)
          (seq (emit [Stroke]) (mixingRatioLoop d ws)))"

definition drawMixingRatioLines :: "diagram \<Rightarrow> outcome" where
  "drawMixingRatioLines d =
     seq (emit [StrokeStyle ''rgba(150, 75, 0, 0.3)'', LineWidth (Num 1),
                Font ''9px Arial'', FillStyle ''rgba(150, 75, 0, 0.7)''])
       (mixingRatioLoop d mixingRatios)"

definition drawBorder :: "diagram \<Rightarrow> cmd list" where
  "drawBorder d =
     [StrokeStyle ''#000000'', LineWidth (Num 2),
      StrokeRect (margin_left (margin d)) (margin_top (margin d)) (plotWidth d) (plotHeight d)]"


section \<open>Profile curves\<close>

text \<open>
  The \<open>forEach\<close> of \<open>drawTemperatureProfile\<close>: a \<open>return\<close> in the callback skips the
  row and leaves \<open>firstPoint\<close> as it was.
\<close>

fun temperatureRows :: "diagram \<Rightarrow> level list \<Rightarrow> bool \<Rightarrow> cmd list" where
  "temperatureRows d [] firstPoint = []"
| "temperatureRows d (row # rows) firstPoint =
     (if isNaN (temp row) \<or> pressure row < pMin d \<or> pressure row > pMax d
      then temperatureRows d rows firstPoint
      else if height row < hMin d \<or> height row > hMax d
      then temperatureRows d rows firstPoint
      else (let x = tempToX d (temp row) (pressure row);
                y = heightToY d (height row)
            in (if firstPoint then MoveTo x y else LineTo x y)
               # temperatureRows d rows False))"

definition drawTemperatureProfile :: "diagram \<Rightarrow> level list \<Rightarrow> cmd list" where
  "drawTemperatureProfile d rows =
     [StrokeStyle ''#ff0000'', LineWidth (Num 2.5), BeginPath]
     @ temperatureRows d rows True @ [Stroke]"

fun dewpointRows :: "diagram \<Rightarrow> level list \<Rightarrow> bool \<Rightarrow> cmd list" where
  "dewpointRows d [] firstPoint = []"
| "dewpointRows d (row # rows) firstPoint =
     (if isNaN (dewpoint row) \<or> pressure row < pMin d \<or> pressure row > pMax d
      then dewpointRows d rows firstPoint
      else if height row < hMin d \<or> height row > hMax d
      then dewpointRows d rows firstPoint
      else (let x = tempToX d (dewpoint row) (pressure row);
                y = heightToY d (height row)
            in (if firstPoint then MoveTo x y else LineTo x y)
               # dewpointRows d rows False))"

definition drawDewpointProfile :: "diagram \<Rightarrow> level list \<Rightarrow> cmd list" where
  "drawDewpointProfile d rows =
     [StrokeStyle ''#00aa00'', LineWidth (Num 2.5), BeginPath]
     @ dewpointRows d rows True @ [Stroke]"


section \<open>Wind barbs\<close>

text \<open>
  The bodies of the two \<open>while\<close> loops and of the last \<open>if\<close> of \<open>drawWindBarb\<close>;
  \<open>flagWidth\<close> is 10 and \<open>perpAngle\<close> is \<open>angle - Math.PI / 2\<close>.
\<close>

definition flagWidth :: number where
  "flagWidth = Num 10"

definition perpAngle :: "number \<Rightarrow> number" where
  "perpAngle angle = angle - Math_PI / Num 2"

definition pennant :: "number \<Rightarrow> number \<Rightarrow> number \<Rightarrow> number \<Rightarrow> cmd list" where
  "pennant x y angle currentDist =
     (let x1 = x + Math_sin angle * currentDist;
          y1 = y - Math_cos angle * currentDist;
          x2 = x + Math_sin angle * (currentDist - Num 8);
          y2 = y - Math_cos angle * (currentDist - Num 8);
          x3 = x2 + Math_sin (perpAngle angle) * flagWidth;
          y3 = y2 - Math_cos (perpAngle angle) * flagWidth
      in [BeginPath, MoveTo x1 y1, LineTo x3 y3, LineTo x2 y2, ClosePath, Fill])"

definition fullBarb :: "number \<Rightarrow> number \<Rightarrow> number \<Rightarrow> number \<Rightarrow> cmd list" where
  "fullBarb x y angle currentDist =
     (let x1 = x + Math_sin angle * currentDist;
          y1 = y - Math_cos angle * currentDist;
          x2 = x1 + Math_sin (perpAngle angle) * flagWidth;
          y2 = y1 - Math_cos (perpAngle angle) * flagWidth
      in [BeginPath, MoveTo x1 y1, LineTo x2 y2, Stroke])"

definition halfBarb :: "number \<Rightarrow> number \<Rightarrow> number \<Rightarrow> number \<Rightarrow> cmd list" where
  "halfBarb x y angle currentDist =
     (let x1 = x + Math_sin angle * currentDist;
          y1 = y - Math_cos angle * currentDist;
          x2 = x1 + Math_sin (perpAngle angle) * (flagWidth / Num 2);
          y2 = y1 - Math_cos (perpAngle angle) * (flagWidth / Num 2)
      in [BeginPath, MoveTo x1 y1, LineTo x2 y2, Stroke])"

text \<open>
  Each loop returns the calls it made and the values of \<open>currentSpeed\<close> and
  \<open>currentDist\<close> it ends with.
\<close>

partial_function (option) pennantLoop ::
  "number \<Rightarrow> number \<Rightarrow> number \<Rightarrow> number \<Rightarrow> number \<Rightarrow> (cmd list \<times> number \<times> number) option" where
  "pennantLoop x y angle currentSpeed currentDist =
     (if currentSpeed \<ge> Num 47.5 then
        Option.bind (pennantLoop x y angle (currentSpeed - Num 50) (currentDist - Num 10))
          (\<lambda>(rest, s, dist). Some (pennant x y angle currentDist @ rest, s, dist))
      else Some ([], currentSpeed, currentDist))"

partial_function (option) barbLoop ::
  "number \<Rightarrow> number \<Rightarrow> number \<Rightarrow> number \<Rightarrow> number \<Rightarrow> (cmd list \<times> number \<times> number) option" where
  "barbLoop x y angle currentSpeed currentDist =
     (if currentSpeed \<ge> Num 7.5 then
        Option.bind (barbLoop x y angle (currentSpeed - Num 10) (currentDist - Num 6))
          (\<lambda>(rest, s, dist). Some (fullBarb x y angle currentDist @ rest, s, dist))
      else Some ([], currentSpeed, currentDist))"

definition barbStyle :: "cmd list" where
  "barbStyle = [StrokeStyle ''#000000'', FillStyle ''#000000'', LineWidth (Num 1.5)]"

definition calmCircle :: "number \<Rightarrow> number \<Rightarrow> cmd list" where
  "calmCircle x y = [BeginPath, Arc x y (Num 4) (Num 0) (Num 2 * Math_PI), Stroke]"

definition staff :: "number \<Rightarrow> number \<Rightarrow> number \<Rightarrow> number \<Rightarrow> cmd list" where
  "staff x y angle barbLength =
     (let staffEndX = x + Math_sin angle * barbLength;
          staffEndY = y - Math_cos angle * barbLength
      in [BeginPath, MoveTo x y, LineTo staffEndX staffEndY, Stroke])"

definition drawWindBarb :: "number \<Rightarrow> number \<Rightarrow> number \<Rightarrow> number \<Rightarrow> cmd list option" where
  "drawWindBarb x y direction speedMS =
     (let speedKmh = speedMS * Num 3.6;
          angle = direction * Math_PI / Num 180;
          barbLength = Num 30
      in if speedKmh < Num 2.5 then Some (barbStyle @ calmCircle x y)
         else Option.bind (pennantLoop x y angle speedKmh barbLength)
                (\<lambda>(pennants, s1, dist1).
                   Option.bind (barbLoop x y angle s1 dist1)
                     (\<lambda>(barbs, s2, dist2).
                        Some (barbStyle @ staff x y angle barbLength @ pennants @ barbs
                              @ (if s2 \<ge> Num 2.5 then halfBarb x y angle dist2 else [])))))"

text \<open>
  The first \<open>forEach\<close> of \<open>drawWindBarbs\<close>, which fills \<open>windData\<close>, and the second,
  which draws it.
\<close>

fun windRows :: "diagram \<Rightarrow> number \<Rightarrow> level list \<Rightarrow> number \<Rightarrow> level list \<Rightarrow> level list" where
  "windRows d interval [] lastH windData = windData"
| "windRows d interval (row # rows) lastH windData =
     (if pressure row \<ge> pMin d \<and> pressure row \<le> pMax d
         \<and> height row \<ge> hMin d \<and> height row \<le> hMax d
         \<and> \<not> isNaN (windSpeed row) \<and> \<not> isNaN (windDir row)
      then (if Math_abs (height row - lastH) \<ge> interval \<or> length windData = 0
            then windRows d interval rows (height row) (windData @ [row])
            else windRows d interval rows lastH windData)
      else windRows d interval rows lastH windData)"

fun barbRows :: "diagram \<Rightarrow> number \<Rightarrow> level list \<Rightarrow> cmd list option" where
  "barbRows d xBarb [] = Some []"
| "barbRows d xBarb (row # rows) =
     Option.bind (drawWindBarb xBarb (heightToY d (height row)) (windDir row) (windSpeed row))
       (\<lambda>cs. Option.bind (barbRows d xBarb rows) (\<lambda>cs'. Some (cs @ cs')))"

definition drawWindBarbs :: "diagram \<Rightarrow> level list \<Rightarrow> cmd list option" where
  "drawWindBarbs d rows =
     (let xBarb = margin_left (margin d) + plotWidth d + Num 20;
          heightRange = hMax d - hMin d;
          interval = (if heightRange < Num 5000 then Num 250 else Num 500)
      in barbRows d xBarb (windRows d interval rows (Num (- 10000)) []))"


section \<open>Title and the whole diagram\<close>

text \<open>
  In a condition a string counts as true when it is not empty, a number when it is
  neither 0 nor \<open>NaN\<close>, and an absent property counts as false.
\<close>

definition truthyString :: "string option \<Rightarrow> bool" where
  "truthyString s = (case s of None \<Rightarrow> False | Some str \<Rightarrow> str \<noteq> [])"

definition truthyNumber :: "number option \<Rightarrow> bool" where
  "truthyNumber v = (case v of None \<Rightarrow> False | Some n \<Rightarrow> n \<noteq> NaN \<and> n \<noteq> Num 0)"

definition infoText :: "metadata \<Rightarrow> jstext" where
  "infoText m =
     (let t0 = Str [];
          t1 = (if truthyString (observationTime m)
                then Cat t0 (Cat (Str (the (observationTime m))) (Str ''  ''))
                else t0)
      in if truthyNumber (latitude m) \<and> truthyNumber (longitude m)
         then Cat t1 (Cat (Str ''Lat: '')
                (Cat (Fixed (the (latitude m)) 2)
                   (Cat (Str ([CHR 0xB0] @ '' Lon: ''))
                      (Cat (Fixed (the (longitude m)) 2) (Str [CHR 0xB0])))))
         else t1)"

definition drawTitle :: "diagram \<Rightarrow> metadata option \<Rightarrow> cmd list" where
  "drawTitle d md =
     (let title = (case md of
                     None \<Rightarrow> ''Skew-T Log-P Diagram''
                   | Some m \<Rightarrow> if truthyString (stationName m) then the (stationName m)
                              else ''Skew-T Log-P Diagram'');
          legendX = margin_left (margin d) + plotWidth d - Num 200;
          legendY = margin_top (margin d) + Num 20
      in [FillStyle ''#000000'', Font ''bold 18px Arial'',
          FillText (Str title) (margin_left (margin d)) (Num 25)]
         @ (case md of
              None \<Rightarrow> []
            | Some m \<Rightarrow> [Font ''12px Arial'',
                         FillText (infoText m) (margin_left (margin d)) (Num 42)])
         @ [Font ''12px Arial'',
            StrokeStyle ''#ff0000'', LineWidth (Num 2.5),
            BeginPath, MoveTo legendX legendY, LineTo (legendX + Num 30) legendY, Stroke,
            FillStyle ''#000000'',
            FillText (Str ''Temperature'') (legendX + Num 35) (legendY + Num 4),
            StrokeStyle ''#00aa00'', LineWidth (Num 2.5),
            BeginPath, MoveTo legendX (legendY + Num 20),
            LineTo (legendX + Num 30) (legendY + Num 20), Stroke,
            FillText (Str ''Dew Point'') (legendX + Num 35) (legendY + Num 24)])"

text \<open>
  The data phase of \<open>draw\<close>, taken only when
  \<open>soundingData && soundingData.data && soundingData.data.length > 0\<close>.
\<close>

definition drawProfile :: "diagram \<Rightarrow> sounding option \<Rightarrow> outcome" where
  "drawProfile d sd =
     (case sd of
        None \<Rightarrow> emit []
      | Some s \<Rightarrow>
          (case data s of
             None \<Rightarrow> emit []
           | Some rows \<Rightarrow>
               if length rows > 0 then
                 seq (emit (drawTemperatureProfile d rows))
                   (seq (emit (drawDewpointProfile d rows))
                      (map_option Inr (drawWindBarbs d rows)))
               else emit []))"

text \<open>
  The first phase of \<open>draw\<close>: background, height axis, isobars, the four families of
  reference curves and the border.
\<close>

definition drawFrame :: "diagram \<Rightarrow> outcome" where
  "drawFrame d =
     seq (emit [ClearRect (Num 0) (Num 0) (canvasWidth d) (canvasHeight d),
                FillStyle ''#ffffff'',
                FillRect (Num 0) (Num 0) (canvasWidth d) (canvasHeight d)])
    (seq (map_option Inr (drawHeightAxis d))
    (seq (Some (drawPressureLines d))
    (seq (Some (drawIsotherms d))
    (seq (drawDryAdiabats d)
    (seq (drawMoistAdiabats d)
    (seq (drawMixingRatioLines d)
         (emit (drawBorder d))))))))"

text \<open>
  \<open>draw\<close> assigns \<open>this.soundingData\<close> first, so the diagram it leaves behind is the same
  whether the drawing then returns, raises or never ends. The title gets
  \<open>soundingData?.metadata\<close>.
\<close>

definition draw :: "diagram \<Rightarrow> sounding option \<Rightarrow> diagram \<times> outcome" where
  "draw d sd =
     (let d' = d\<lparr>soundingData := sd\<rparr>
      in (d',
          seq (drawFrame d')
         (seq (drawProfile d' sd)
              (emit (drawTitle d' (case sd of None \<Rightarrow> None | Some s \<Rightarrow> metadata s))))))"


section \<open>Interpolation at a height (SoundingApp)\<close>

text \<open>The first loop of \<open>interpolateDataAtHeight\<close>, over the pairs \<open>data[i]\<close>, \<open>data[i + 1]\<close>.\<close>

fun interpolateScan :: "level list \<Rightarrow> number \<Rightarrow> level option" where
  "interpolateScan (lower # upper # rest) targetHeight =
     (let minH = Math_min (height lower) (height upper);
          maxH = Math_max (height lower) (height upper)
      in if targetHeight \<ge> minH \<and> targetHeight \<le> maxH then
           (let ratio = (targetHeight - height lower) / (height upper - height lower)
            in Some \<lparr>pressure = pressure lower + ratio * (pressure upper - pressure lower),
                     height = targetHeight,
                     temp = temp lower + ratio * (temp upper - temp lower),
                     dewpoint = dewpoint lower + ratio * (dewpoint upper - dewpoint lower),
                     windDir = windDir lower + ratio * (windDir upper - windDir lower),
                     windSpeed = windSpeed lower + ratio * (windSpeed upper - windSpeed lower)\<rparr>)
         else interpolateScan (upper # rest) targetHeight)"
| "interpolateScan rows targetHeight = None"

text \<open>
  The \<open>forEach\<close> that looks for the closest row: the values of \<open>closest\<close> and
  \<open>minDistance\<close> when it ends, from their values when it starts.
\<close>

fun closestScan :: "level list \<Rightarrow> number \<Rightarrow> level option \<Rightarrow> number \<Rightarrow> level option \<times> number" where
  "closestScan [] targetHeight closest minDistance = (closest, minDistance)"
| "closestScan (row # rows) targetHeight closest minDistance =
     (let distance = Math_abs (height row - targetHeight)
      in if distance < minDistance then closestScan rows targetHeight (Some row) distance
         else closestScan rows targetHeight closest minDistance)"

text \<open>
  The method reads \<open>this.currentSoundingData.data\<close> and then \<open>data.length\<close>: either read
  raises a \<open>TypeError\<close> when its object is missing. \<open>Inr None\<close> is the result \<open>null\<close>.
\<close>

definition interpolateDataAtHeight :: "sounding option \<Rightarrow> number \<Rightarrow> error + level option" where
  "interpolateDataAtHeight currentSoundingData targetHeight =
     (case currentSoundingData of
        None \<Rightarrow> Inl TypeError
      | Some sd \<Rightarrow>
          (case data sd of
             None \<Rightarrow> Inl TypeError
           | Some rows \<Rightarrow>
               (case interpolateScan rows targetHeight of
                  Some r \<Rightarrow> Inr (Some r)
                | None \<Rightarrow> Inr (fst (closestScan rows targetHeight None PosInf)))))"


section \<open>Notions used to state the properties\<close>

text \<open>
  A profile as the properties of \<open>pressureToHeight\<close> need it: every pressure and height
  is a finite number, and the pressure falls strictly from each row to the next.
\<close>

fun isFinite :: "number \<Rightarrow> bool" where
  "isFinite (Num a) = True"
| "isFinite x = False"





text \<open>
  The distance the closest-row search compares, and the test of the interpolation loop:
  \<open>targetHeight\<close> lies in the height interval of two adjacent rows.
\<close>

definition heightDistance :: "level \<Rightarrow> number \<Rightarrow> number" where
  "heightDistance r targetHeight = Math_abs (height r - targetHeight)"

definition bracketsHeight :: "level \<Rightarrow> level \<Rightarrow> number \<Rightarrow> bool" where
  "bracketsHeight lower upper targetHeight =
     (targetHeight \<ge> Math_min (height lower) (height upper)
      \<and> targetHeight \<le> Math_max (height lower) (height upper))"

text \<open>
  The number of pennants and of full barbs for a speed in km/h, in closed form: the speed
  rounded to the nearest multiple of 5 holds that many whole units of 50 and of 10.
\<close>

definition pennantCount :: "real \<Rightarrow> nat" where
  "pennantCount s = (if s < 47.5 then 0 else nat \<lfloor>(s + 2.5) / 50\<rfloor>)"

definition barbCount :: "real \<Rightarrow> nat" where
  "barbCount s = (if s < 7.5 then 0 else nat \<lfloor>(s + 2.5) / 10\<rfloor>)"

text \<open>
  The calls that draw one polyline through the given vertices: \<open>moveTo\<close> for the first
  one when \<open>firstPoint\<close> is set, \<open>lineTo\<close> for the others.
\<close>

fun polylineFrom :: "bool \<Rightarrow> (number \<times> number) list \<Rightarrow> cmd list" where
  "polylineFrom firstPoint [] = []"
| "polylineFrom firstPoint ((x, y) # vs) =
     (if firstPoint then MoveTo x y else LineTo x y) # polylineFrom False vs"

definition polyline :: "(number \<times> number) list \<Rightarrow> cmd list" where
  "polyline vs = polylineFrom True vs"

text \<open>The diagram holds a sounding whose \<open>data\<close> is the empty array.\<close>

definition emptyProfile :: "diagram \<Rightarrow> bool" where
  "emptyProfile d = (case soundingData d of None \<Rightarrow> False | Some sd \<Rightarrow> data sd = Some [])"

text \<open>
  The values a counter takes in a loop that runs between two finite bounds \<open>lo \<le> hi\<close> in
  steps of \<open>step\<close>: how many there are, and the descending list \<open>hi\<close>, \<open>hi - step\<close>, ...
  that stops before it falls below \<open>lo\<close>.
\<close>

definition sampleCount :: "real \<Rightarrow> real \<Rightarrow> real \<Rightarrow> nat" where
  "sampleCount step lo hi = (if hi < lo then 0 else Suc (nat \<lfloor>(hi - lo) / step\<rfloor>))"

definition samples :: "real \<Rightarrow> real \<Rightarrow> real \<Rightarrow> number list" where
  "samples step lo hi = map (\<lambda>k. Num (hi - step * real k)) [0..<sampleCount step lo hi]"

text \<open>The potential temperatures from 200 K to 500 K in steps of 10.\<close>

definition dryThetas :: "int list" where
  "dryThetas = [200, 210, 220, 230, 240, 250, 260, 270, 280, 290, 300, 310, 320, 330, 340, 350,
                360, 370, 380, 390, 400, 410, 420, 430, 440, 450, 460, 470, 480, 490, 500]"


text \<open>The method returns: it neither raises nor runs forever.\<close>

definition returns :: "outcome \<Rightarrow> bool" where
  "returns out = (case out of Some (Inr cs) \<Rightarrow> True | _ \<Rightarrow> False)"


section \<open>Arithmetic of JavaScript numbers\<close>

lemma Num_minus [simp]: "Num a - Num b = Num (a - b)"
  by (simp add: minus_number_def)

lemma number_add_zero [simp]: "x + Num 0 = x"
  by (cases x) simp_all

lemma number_add_NaN [simp]: "x + NaN = NaN"
  by (cases x) simp_all

lemma number_mult_NaN [simp]: "x * NaN = NaN"
  by (cases x) simp_all

lemma number_minus_NaN [simp]: "x - NaN = NaN" "NaN - x = NaN"
  by (simp_all add: minus_number_def)

lemma number_div_NaN [simp]: "x / NaN = NaN"
  by (cases x) simp_all

lemma isFinite_iff: "isFinite x \<longleftrightarrow> (\<exists>a. x = Num a)"
  by (cases x) simp_all

text \<open>The comparisons are transitive where they hold; \<open>NaN\<close> is comparable with nothing.\<close>

lemma number_less_trans: "(a::number) < b \<Longrightarrow> b < c \<Longrightarrow> a < c"
  by (cases a; cases b; cases c) simp_all

lemma number_less_le_trans: "(a::number) < b \<Longrightarrow> b \<le> c \<Longrightarrow> a < c"
  by (cases a; cases b; cases c) simp_all

lemma number_le_trans: "(a::number) \<le> b \<Longrightarrow> b \<le> c \<Longrightarrow> a \<le> c"
  by (cases a; cases b; cases c) simp_all

lemma number_le_not_less: "(a::number) \<le> b \<Longrightarrow> \<not> b < a"
  by (cases a; cases b) simp_all

lemma number_less_imp_le: "(a::number) < b \<Longrightarrow> a \<le> b"
  by (cases a; cases b) simp_all

lemma number_le_less_trans: "(a::number) \<le> b \<Longrightarrow> b < c \<Longrightarrow> a < c"
  by (cases a; cases b; cases c) simp_all

lemma number_less_not_le: "(a::number) < b \<Longrightarrow> \<not> b \<le> a"
  by (cases a; cases b) simp_all

lemma number_le_refl: "a \<noteq> NaN \<Longrightarrow> (a::number) \<le> a"
  by (cases a) simp_all

lemma number_less_not_NaN: "(a::number) < b \<Longrightarrow> a \<noteq> NaN \<and> b \<noteq> NaN"
  by (cases a; cases b) simp_all

text \<open>A list fact for the loops, and sequencing of outcomes.\<close>

lemma upt_0_Suc_map: "[0..<Suc n] = 0 # map Suc [0..<n]"
  by (simp add: map_Suc_upt upt_conv_Cons del: upt_Suc)

lemma seq_assoc: "seq (seq a b) c = seq a (seq b c)"
  by (auto simp: seq_def split: option.splits sum.splits)


section \<open>Properties of the coordinate transforms\<close>

text \<open>
  C10. \<open>setHeightRange(min, max)\<close> assigns \<open>hMin\<close> and \<open>hMax\<close> from its arguments,
  whatever they are, and nothing else; \<open>draw(soundingData)\<close> assigns the field
  \<open>soundingData\<close> and nothing else. The pressure and temperature bounds, the skew, the
  margins and the plot size are the same after either call.
\<close>

theorem frame_setHeightRange_draw:
  "setHeightRange d minHeight maxHeight = d\<lparr>hMin := minHeight, hMax := maxHeight\<rparr>
   \<and> fst (draw d sd) = d\<lparr>soundingData := sd\<rparr>
   \<and> (let d1 = setHeightRange d minHeight maxHeight; d2 = fst (draw d sd)
      in pMin d1 = pMin d \<and> pMax d1 = pMax d \<and> tMin d1 = tMin d \<and> tMax d1 = tMax d
         \<and> skew d1 = skew d \<and> margin d1 = margin d
         \<and> plotWidth d1 = plotWidth d \<and> plotHeight d1 = plotHeight d
         \<and> canvasWidth d1 = canvasWidth d \<and> canvasHeight d1 = canvasHeight d
         \<and> soundingData d1 = soundingData d
         \<and> pMin d2 = pMin d \<and> pMax d2 = pMax d \<and> tMin d2 = tMin d \<and> tMax d2 = tMax d
         \<and> skew d2 = skew d \<and> margin d2 = margin d
         \<and> plotWidth d2 = plotWidth d \<and> plotHeight d2 = plotHeight d
         \<and> canvasWidth d2 = canvasWidth d \<and> canvasHeight d2 = canvasHeight d
         \<and> hMin d2 = hMin d \<and> hMax d2 = hMax d)"
  by (simp add: setHeightRange_def draw_def Let_def)

text \<open>
  C7. In a view whose \<open>pMax\<close> is a positive finite pressure and whose \<open>skew\<close> is finite,
  the skew offset at \<open>pMax\<close> is 0, so \<open>tempToX(t, pMax)\<close> is the plain linear map of
  \<open>t\<close> onto the horizontal axis, for every \<open>t\<close>; and for every pressure \<open>0 < p < pMax\<close>
  the offset \<open>skew * (ln pMax - ln p)\<close> is strictly positive when \<open>skew > 0\<close>.
\<close>

theorem tempToX_skew:
  assumes "pMax d = Num P" and "0 < P" and "skew d = Num S"
  shows "skewOffset d (pMax d) = Num 0
         \<and> tempToX d t (pMax d)
             = margin_left (margin d) + plotWidth d * ((t - tMin d) / (tMax d - tMin d))
         \<and> (\<forall>p. 0 < p \<and> p < P \<and> 0 < S \<longrightarrow>
               skewOffset d (Num p) = Num (S * (ln P - ln p)) \<and> 0 < S * (ln P - ln p)
               \<and> tempToX d t (Num p) = baseX d t + Num (S * (ln P - ln p)))"
proof -
  have off0: "skewOffset d (pMax d) = Num 0"
    using assms by (simp add: skewOffset_def)
  have at_pMax: "tempToX d t (pMax d)
      = margin_left (margin d) + plotWidth d * ((t - tMin d) / (tMax d - tMin d))"
    unfolding tempToX_def off0 by (simp add: baseX_def)
  have lower: "skewOffset d (Num p) = Num (S * (ln P - ln p)) \<and> 0 < S * (ln P - ln p)
               \<and> tempToX d t (Num p) = baseX d t + Num (S * (ln P - ln p))"
    if "0 < p" "p < P" "0 < S" for p
  proof -
    have "ln p < ln P" using that assms by simp
    then have "0 < S * (ln P - ln p)" using that by simp
    moreover have "skewOffset d (Num p) = Num (S * (ln P - ln p))"
      using assms that by (simp add: skewOffset_def)
    ultimately show ?thesis by (simp add: tempToX_def)
  qed
  show ?thesis using off0 at_pMax lower by blast
qed

theorem tempToX_skew_witness:
  "skewOffset (SkewTDiagram 800 600) (Num 1050) = Num 0
   \<and> tempToX (SkewTDiagram 800 600) (Num 20) (Num 1050) = Num (100 + 550 * (80 / 110))
   \<and> skewOffset (SkewTDiagram 800 600) (Num 500) = Num (35 * (ln 1050 - ln 500))
   \<and> (0::real) < 35 * (ln 1050 - ln 500)"
proof -
  have h1: "pMax (SkewTDiagram 800 600) = Num 1050" by (simp add: SkewTDiagram_def)
  have h2: "(0::real) < 1050" by simp
  have h3: "skew (SkewTDiagram 800 600) = Num 35" by (simp add: SkewTDiagram_def)
  have h4: "(0::real) < 500 \<and> (500::real) < 1050 \<and> (0::real) < 35" by simp
  from tempToX_skew [OF h1 h2 h3, of "Num 20"] h4 show ?thesis
    by (simp add: SkewTDiagram_def)
qed

section \<open>Properties of pressureToHeight\<close>









text \<open>
  \<open>pressureToHeight\<close> raises exactly when the loaded profile is empty; \<open>pressureToY\<close>
  raises with it.
\<close>

lemma bracketSearch_nonempty_total:
  "rows \<noteq> [] \<Longrightarrow> \<exists>h. (case bracketSearch rows p of
                          Some h \<Rightarrow> Inr h
                        | None \<Rightarrow>
                            (case rows of
                               [] \<Rightarrow> Inl TypeError
                             | r # rs \<Rightarrow>
                                 if p \<ge> pressure r then Inr (height r)
                                 else if p \<le> pressure (last rows) then Inr (height (last rows))
                                 else Inr (Num 0))) = Inr h"
  by (cases rows) (auto split: option.splits)

lemma pressureToHeight_throws_iff:
  "pressureToHeight d p = Inl TypeError \<longleftrightarrow> emptyProfile d"
proof (cases "soundingData d")
  case None
  then show ?thesis by (simp add: pressureToHeight_def emptyProfile_def)
next
  case (Some sd)
  show ?thesis
  proof (cases "data sd")
    case None
    then show ?thesis using Some by (simp add: pressureToHeight_def emptyProfile_def)
  next
    case (Some rows)
    show ?thesis
    proof (cases "rows = []")
      case True
      then show ?thesis using Some \<open>soundingData d = Some sd\<close>
        by (simp add: pressureToHeight_def emptyProfile_def)
    next
      case False
      from bracketSearch_nonempty_total [OF False, of p] obtain h where
        "pressureToHeight d p = Inr h"
        using Some \<open>soundingData d = Some sd\<close> by (auto simp: pressureToHeight_def)
      then show ?thesis using False Some \<open>soundingData d = Some sd\<close>
        by (simp add: emptyProfile_def)
    qed
  qed
qed

lemma pressureToY_returns:
  "\<not> emptyProfile d \<Longrightarrow> pressureToY d p = Inr (projr (pressureToY d p))"
proof -
  assume "\<not> emptyProfile d"
  then have "pressureToHeight d p \<noteq> Inl TypeError" by (simp add: pressureToHeight_throws_iff)
  then obtain h where "pressureToHeight d p = Inr h"
    by (cases "pressureToHeight d p") (auto intro: error.exhaust)
  then show ?thesis by (simp add: pressureToY_def)
qed

lemma pressureToY_throws:
  "emptyProfile d \<Longrightarrow> pressureToY d p = Inl TypeError"
  using pressureToHeight_throws_iff [of d p] by (simp add: pressureToY_def)




text \<open>
  C9. For every pressure \<open>p\<close>, \<open>pressureToY(p)\<close> is \<open>heightToY\<close> applied to the result
  of \<open>pressureToHeight(p)\<close>: the same \<open>y\<close> when \<open>pressureToHeight\<close> returns a height,
  and the same exception when it raises. Unless the loaded profile is empty it returns a
  height, for every pressure and so for every pressure of the profile.
\<close>

theorem pressureToY_composition:
  "pressureToY d p = map_sum id (heightToY d) (pressureToHeight d p)
   \<and> (\<not> emptyProfile d \<longrightarrow>
        (\<exists>h. pressureToHeight d p = Inr h \<and> pressureToY d p = Inr (heightToY d h)))"
proof (intro conjI impI)
  show "pressureToY d p = map_sum id (heightToY d) (pressureToHeight d p)"
    by (simp add: pressureToY_def split: sum.splits)
next
  assume "\<not> emptyProfile d"
  then have "pressureToHeight d p \<noteq> Inl TypeError" by (simp add: pressureToHeight_throws_iff)
  then obtain h where "pressureToHeight d p = Inr h"
    by (cases "pressureToHeight d p") (auto intro: error.exhaust)
  then show "\<exists>h. pressureToHeight d p = Inr h \<and> pressureToY d p = Inr (heightToY d h)"
    by (simp add: pressureToY_def)
qed

theorem pressureToY_composition_witness:
  "pressureToY
     ((SkewTDiagram 800 600)\<lparr>soundingData := Some \<lparr>data = Some
        [\<lparr>pressure = Num 1000, height = Num 0, temp = Num 20, dewpoint = Num 10,
          windDir = Num 270, windSpeed = Num 5\<rparr>,
         \<lparr>pressure = Num 850, height = Num 1500, temp = Num 10, dewpoint = Num 5,
          windDir = Num 280, windSpeed = Num 10\<rparr>,
         \<lparr>pressure = Num 700, height = Num 3000, temp = Num 0, dewpoint = Num (- 5),
          windDir = Num 290, windSpeed = Num 15\<rparr>], metadata = None\<rparr>\<rparr>)
     (Num 850) = Inr (Num (50 + 500 * (1 - 1500 / 4500)))"
proof -
  define rows where "rows =
        [\<lparr>pressure = Num 1000, height = Num 0, temp = Num 20, dewpoint = Num 10,
          windDir = Num 270, windSpeed = Num 5\<rparr>,
         \<lparr>pressure = Num 850, height = Num 1500, temp = Num 10, dewpoint = Num 5,
          windDir = Num 280, windSpeed = Num 10\<rparr>,
         \<lparr>pressure = Num 700, height = Num 3000, temp = Num 0, dewpoint = Num (- 5),
          windDir = Num 290, windSpeed = Num 15\<rparr>]"
  define d where "d = (SkewTDiagram 800 600)\<lparr>soundingData := Some \<lparr>data = Some rows, metadata = None\<rparr>\<rparr>"
  have ne: "\<not> emptyProfile d" by (simp add: d_def emptyProfile_def rows_def)
  have ph: "pressureToHeight d (Num 850) = Inr (Num 1500)"
    by (simp add: d_def rows_def pressureToHeight_def Let_def)
  from pressureToY_composition [of d "Num 850"] ne
  obtain h where "pressureToHeight d (Num 850) = Inr h" "pressureToY d (Num 850) = Inr (heightToY d h)"
    by blast
  then have "pressureToY d (Num 850) = Inr (heightToY d (Num 1500))" using ph by simp
  moreover have "heightToY d (Num 1500) = Num (50 + 500 * (1 - 1500 / 4500))"
    by (simp add: d_def SkewTDiagram_def heightToY_def Let_def)
  ultimately show ?thesis unfolding d_def rows_def by simp
qed


section \<open>Properties of interpolateDataAtHeight\<close>

text \<open>On a sounding that has a \<open>data\<close> array, empty or not, the method returns.\<close>

lemma interpolateDataAtHeight_returns:
  "data sd = Some rows \<Longrightarrow> \<exists>res. interpolateDataAtHeight (Some sd) t = Inr res"
  by (simp add: interpolateDataAtHeight_def split: option.splits)

lemma interpolateScan_None:
  "(\<forall>i. Suc i < length rows \<longrightarrow> \<not> bracketsHeight (rows ! i) (rows ! Suc i) t)
   \<Longrightarrow> interpolateScan rows t = None"
proof (induction rows t rule: interpolateScan.induct)
  case (1 lower upper rest targetHeight)
  have "\<not> bracketsHeight lower upper targetHeight" using "1.prems" by fastforce
  moreover have "\<forall>i. Suc i < length (upper # rest)
        \<longrightarrow> \<not> bracketsHeight ((upper # rest) ! i) ((upper # rest) ! Suc i) targetHeight"
    using "1.prems" by fastforce
  ultimately show ?case using "1.IH" by (auto simp: bracketsHeight_def Let_def)
qed simp_all

lemma closestScan_result:
  assumes "closestScan rows t c m = (c', m')" and "m \<noteq> NaN"
  shows "m' \<le> m \<and> (\<forall>r\<in>set rows. \<not> heightDistance r t < m')
         \<and> ((c' = c \<and> m' = m)
            \<or> (\<exists>i<length rows. c' = Some (rows ! i) \<and> m' = heightDistance (rows ! i) t
                  \<and> heightDistance (rows ! i) t < m
                  \<and> (\<forall>j<i. \<not> heightDistance (rows ! j) t \<le> m')))"
  using assms
proof (induction rows arbitrary: c m)
  case Nil
  then show ?case by (simp add: number_le_refl)
next
  case (Cons row rows)
  let ?dist = "heightDistance row t"
  show ?case
  proof (cases "?dist < m")
    case True
    then have rec: "closestScan rows t (Some row) ?dist = (c', m')"
      using Cons.prems by (simp add: heightDistance_def Let_def)
    have nn: "?dist \<noteq> NaN" using True number_less_not_NaN by blast
    from Cons.IH [OF rec nn]
    have le: "m' \<le> ?dist" and rest: "\<forall>r\<in>set rows. \<not> heightDistance r t < m'"
      and alt: "(c' = Some row \<and> m' = ?dist)
            \<or> (\<exists>i<length rows. c' = Some (rows ! i) \<and> m' = heightDistance (rows ! i) t
                  \<and> heightDistance (rows ! i) t < ?dist
                  \<and> (\<forall>j<i. \<not> heightDistance (rows ! j) t \<le> m'))"
      by simp_all
    have a: "m' \<le> m" using le True number_le_trans number_less_imp_le by blast
    have b: "\<not> ?dist < m'" using le number_le_not_less by blast
    have "\<exists>i<length (row # rows). c' = Some ((row # rows) ! i)
            \<and> m' = heightDistance ((row # rows) ! i) t
            \<and> heightDistance ((row # rows) ! i) t < m
            \<and> (\<forall>j<i. \<not> heightDistance ((row # rows) ! j) t \<le> m')"
      using alt
    proof
      assume "c' = Some row \<and> m' = ?dist"
      then have "c' = Some ((row # rows) ! 0) \<and> m' = heightDistance ((row # rows) ! 0) t
            \<and> heightDistance ((row # rows) ! 0) t < m
            \<and> (\<forall>j<0. \<not> heightDistance ((row # rows) ! j) t \<le> m')"
        using True by simp
      then show ?thesis by blast
    next
      assume "\<exists>i<length rows. c' = Some (rows ! i) \<and> m' = heightDistance (rows ! i) t
                  \<and> heightDistance (rows ! i) t < ?dist
                  \<and> (\<forall>j<i. \<not> heightDistance (rows ! j) t \<le> m')"
      then obtain i where i: "i < length rows" "c' = Some (rows ! i)"
        "m' = heightDistance (rows ! i) t" "heightDistance (rows ! i) t < ?dist"
        "\<forall>j<i. \<not> heightDistance (rows ! j) t \<le> m'" by blast
      have lt: "heightDistance (rows ! i) t < m" using i(4) True number_less_trans by blast
      have first: "\<not> ?dist \<le> m'" using i(3,4) number_less_not_le by simp
      have "\<forall>j<Suc i. \<not> heightDistance ((row # rows) ! j) t \<le> m'"
      proof (intro allI impI)
        fix j assume "j < Suc i"
        then show "\<not> heightDistance ((row # rows) ! j) t \<le> m'"
          using first i(5) by (cases j) simp_all
      qed
      then have "Suc i < length (row # rows) \<and> c' = Some ((row # rows) ! Suc i)
            \<and> m' = heightDistance ((row # rows) ! Suc i) t
            \<and> heightDistance ((row # rows) ! Suc i) t < m
            \<and> (\<forall>j<Suc i. \<not> heightDistance ((row # rows) ! j) t \<le> m')"
        using i lt by simp
      then show ?thesis by blast
    qed
    then show ?thesis using a b rest by simp
  next
    case False
    then have rec: "closestScan rows t c m = (c', m')"
      using Cons.prems by (simp add: heightDistance_def Let_def)
    from Cons.IH [OF rec Cons.prems(2)]
    have le: "m' \<le> m" and rest: "\<forall>r\<in>set rows. \<not> heightDistance r t < m'"
      and alt: "(c' = c \<and> m' = m)
            \<or> (\<exists>i<length rows. c' = Some (rows ! i) \<and> m' = heightDistance (rows ! i) t
                  \<and> heightDistance (rows ! i) t < m
                  \<and> (\<forall>j<i. \<not> heightDistance (rows ! j) t \<le> m'))"
      by simp_all
    have b: "\<not> ?dist < m'" using le False number_less_le_trans by blast
    from alt have "(c' = c \<and> m' = m)
            \<or> (\<exists>i<length (row # rows). c' = Some ((row # rows) ! i)
                  \<and> m' = heightDistance ((row # rows) ! i) t
                  \<and> heightDistance ((row # rows) ! i) t < m
                  \<and> (\<forall>j<i. \<not> heightDistance ((row # rows) ! j) t \<le> m'))"
    proof
      assume "c' = c \<and> m' = m" then show ?thesis by simp
    next
      assume "\<exists>i<length rows. c' = Some (rows ! i) \<and> m' = heightDistance (rows ! i) t
                  \<and> heightDistance (rows ! i) t < m
                  \<and> (\<forall>j<i. \<not> heightDistance (rows ! j) t \<le> m')"
      then obtain i where i: "i < length rows" "c' = Some (rows ! i)"
        "m' = heightDistance (rows ! i) t" "heightDistance (rows ! i) t < m"
        "\<forall>j<i. \<not> heightDistance (rows ! j) t \<le> m'" by blast
      have first: "\<not> ?dist \<le> m'" using i(3,4) False number_le_less_trans by blast
      have "\<forall>j<Suc i. \<not> heightDistance ((row # rows) ! j) t \<le> m'"
      proof (intro allI impI)
        fix j assume "j < Suc i"
        then show "\<not> heightDistance ((row # rows) ! j) t \<le> m'"
          using first i(5) by (cases j) simp_all
      qed
      then have "Suc i < length (row # rows) \<and> c' = Some ((row # rows) ! Suc i)
            \<and> m' = heightDistance ((row # rows) ! Suc i) t
            \<and> heightDistance ((row # rows) ! Suc i) t < m
            \<and> (\<forall>j<Suc i. \<not> heightDistance ((row # rows) ! j) t \<le> m')"
        using i by simp
      then show ?thesis by blast
    qed
    then show ?thesis using le rest b by simp
  qed
qed

text \<open>
  C4, as amended. When no adjacent pair of rows has \<open>targetHeight\<close> in its height
  interval, \<open>interpolateDataAtHeight\<close> returns the first row at the least absolute
  height distance among the rows whose distance is below \<open>Infinity\<close>, and it returns
  \<open>null\<close> exactly when no row has such a distance. When every height and the target are
  finite, that is exactly when the profile has no rows.
\<close>

theorem interpolateDataAtHeight_closest:
  assumes "data sd = Some rows"
    and "\<forall>i. Suc i < length rows \<longrightarrow> \<not> bracketsHeight (rows ! i) (rows ! Suc i) t"
  shows "\<exists>res. interpolateDataAtHeight (Some sd) t = Inr res
           \<and> (res = None \<longleftrightarrow> (\<forall>r\<in>set rows. \<not> heightDistance r t < PosInf))
           \<and> (\<forall>r. res = Some r \<longrightarrow>
                 (\<exists>i<length rows. r = rows ! i \<and> heightDistance r t < PosInf
                    \<and> (\<forall>r'\<in>set rows. \<not> heightDistance r' t < heightDistance r t)
                    \<and> (\<forall>j<i. \<not> heightDistance (rows ! j) t \<le> heightDistance r t)))
           \<and> ((\<forall>r\<in>set rows. isFinite (height r)) \<and> isFinite t \<longrightarrow> (res = None \<longleftrightarrow> rows = []))"
proof -
  obtain c' m' where scan: "closestScan rows t None PosInf = (c', m')"
    by (cases "closestScan rows t None PosInf") blast
  have res: "interpolateDataAtHeight (Some sd) t = Inr c'"
    using assms(1) interpolateScan_None [OF assms(2)] scan
    by (simp add: interpolateDataAtHeight_def)
  from closestScan_result [OF scan]
  have rest: "\<forall>r\<in>set rows. \<not> heightDistance r t < m'"
    and alt: "(c' = None \<and> m' = PosInf)
            \<or> (\<exists>i<length rows. c' = Some (rows ! i) \<and> m' = heightDistance (rows ! i) t
                  \<and> heightDistance (rows ! i) t < PosInf
                  \<and> (\<forall>j<i. \<not> heightDistance (rows ! j) t \<le> m'))"
    by simp_all
  have none: "c' = None \<longleftrightarrow> (\<forall>r\<in>set rows. \<not> heightDistance r t < PosInf)"
    using alt
  proof
    assume "c' = None \<and> m' = PosInf"
    then show ?thesis using rest by simp
  next
    assume "\<exists>i<length rows. c' = Some (rows ! i) \<and> m' = heightDistance (rows ! i) t
                  \<and> heightDistance (rows ! i) t < PosInf
                  \<and> (\<forall>j<i. \<not> heightDistance (rows ! j) t \<le> m')"
    then obtain i where "i < length rows" "c' = Some (rows ! i)"
      "heightDistance (rows ! i) t < PosInf" by blast
    moreover from this have "rows ! i \<in> set rows" by simp
    ultimately show ?thesis by blast
  qed
  have some: "\<exists>i<length rows. r = rows ! i \<and> heightDistance r t < PosInf
                    \<and> (\<forall>r'\<in>set rows. \<not> heightDistance r' t < heightDistance r t)
                    \<and> (\<forall>j<i. \<not> heightDistance (rows ! j) t \<le> heightDistance r t)"
    if r: "c' = Some r" for r
  proof -
    from alt r obtain i where i: "i < length rows" "c' = Some (rows ! i)"
      "m' = heightDistance (rows ! i) t" "heightDistance (rows ! i) t < PosInf"
      "\<forall>j<i. \<not> heightDistance (rows ! j) t \<le> m'" by auto
    have eq: "r = rows ! i" using r i(2) by simp
    have "i < length rows \<and> r = rows ! i \<and> heightDistance r t < PosInf
                    \<and> (\<forall>r'\<in>set rows. \<not> heightDistance r' t < heightDistance r t)
                    \<and> (\<forall>j<i. \<not> heightDistance (rows ! j) t \<le> heightDistance r t)"
      using i rest unfolding eq by simp
    then show ?thesis by blast
  qed
  have fin: "c' = None \<longleftrightarrow> rows = []"
    if f: "(\<forall>r\<in>set rows. isFinite (height r)) \<and> isFinite t"
  proof -
    have "heightDistance r t < PosInf" if rin: "r \<in> set rows" for r
    proof -
      obtain a b where "height r = Num a" "t = Num b"
        using f rin unfolding isFinite_iff by blast
      then show ?thesis by (simp add: heightDistance_def)
    qed
    then show ?thesis using none by (cases rows) auto
  qed
  have "interpolateDataAtHeight (Some sd) t = Inr c'
           \<and> (c' = None \<longleftrightarrow> (\<forall>r\<in>set rows. \<not> heightDistance r t < PosInf))
           \<and> (\<forall>r. c' = Some r \<longrightarrow>
                 (\<exists>i<length rows. r = rows ! i \<and> heightDistance r t < PosInf
                    \<and> (\<forall>r'\<in>set rows. \<not> heightDistance r' t < heightDistance r t)
                    \<and> (\<forall>j<i. \<not> heightDistance (rows ! j) t \<le> heightDistance r t)))
           \<and> ((\<forall>r\<in>set rows. isFinite (height r)) \<and> isFinite t \<longrightarrow> (c' = None \<longleftrightarrow> rows = []))"
    using res none some fin by (intro conjI allI impI)
  then show ?thesis by (rule exI)
qed

text \<open>
  A profile of one row whose height is \<open>NaN\<close>: no distance is below \<open>Infinity\<close>, and
  the result is \<open>null\<close> although the profile has a row.
\<close>

theorem interpolateDataAtHeight_null_counterexample:
  "interpolateDataAtHeight
     (Some \<lparr>data = Some [\<lparr>pressure = Num 850, height = NaN, temp = Num 10, dewpoint = Num 5,
                          windDir = Num 280, windSpeed = Num 10\<rparr>],
            metadata = None\<rparr>) (Num 100) = Inr None
   \<and> length [\<lparr>pressure = Num 850, height = NaN, temp = Num 10, dewpoint = Num 5,
               windDir = Num 280, windSpeed = Num 10\<rparr>] = 1"
  by (simp add: interpolateDataAtHeight_def Let_def minus_number_def)

theorem interpolateDataAtHeight_closest_witness:
  "interpolateDataAtHeight
     (Some \<lparr>data = Some
        [\<lparr>pressure = Num 1000, height = Num 0, temp = Num 20, dewpoint = Num 10,
          windDir = Num 270, windSpeed = Num 5\<rparr>,
         \<lparr>pressure = Num 850, height = Num 1500, temp = Num 10, dewpoint = Num 5,
          windDir = Num 280, windSpeed = Num 10\<rparr>,
         \<lparr>pressure = Num 700, height = Num 3000, temp = Num 0, dewpoint = Num (- 5),
          windDir = Num 290, windSpeed = Num 15\<rparr>], metadata = None\<rparr>)
     (Num 5000)
   = Inr (Some \<lparr>pressure = Num 700, height = Num 3000, temp = Num 0, dewpoint = Num (- 5),
          windDir = Num 290, windSpeed = Num 15\<rparr>)"
proof -
  define r0 where "r0 = \<lparr>pressure = Num 1000, height = Num 0, temp = Num 20, dewpoint = Num 10,
          windDir = Num 270, windSpeed = Num 5\<rparr>"
  define r1 where "r1 = \<lparr>pressure = Num 850, height = Num 1500, temp = Num 10, dewpoint = Num 5,
          windDir = Num 280, windSpeed = Num 10\<rparr>"
  define r2 where "r2 = \<lparr>pressure = Num 700, height = Num 3000, temp = Num 0, dewpoint = Num (- 5),
          windDir = Num 290, windSpeed = Num 15\<rparr>"
  define rows where "rows = [r0, r1, r2]"
  define sd where "sd = \<lparr>data = Some rows, metadata = None\<rparr>"
  have hs: "height r0 = Num 0" "height r1 = Num 1500" "height r2 = Num 3000"
    by (simp_all add: r0_def r1_def r2_def)
  have ds: "heightDistance r0 (Num 5000) = Num 5000" "heightDistance r1 (Num 5000) = Num 3500"
    "heightDistance r2 (Num 5000) = Num 2000"
    by (simp_all add: heightDistance_def hs)
  have h1: "data sd = Some rows" by (simp add: sd_def)
  have h2: "\<forall>i. Suc i < length rows \<longrightarrow> \<not> bracketsHeight (rows ! i) (rows ! Suc i) (Num 5000)"
  proof (intro allI impI)
    fix i assume "Suc i < length rows"
    then have "i = 0 \<or> i = 1" by (auto simp: rows_def)
    then show "\<not> bracketsHeight (rows ! i) (rows ! Suc i) (Num 5000)"
      by (auto simp: bracketsHeight_def rows_def hs)
  qed
  from interpolateDataAtHeight_closest [OF h1 h2]
  obtain res where res: "interpolateDataAtHeight (Some sd) (Num 5000) = Inr res"
    and some: "\<forall>r. res = Some r \<longrightarrow>
                 (\<exists>i<length rows. r = rows ! i \<and> heightDistance r (Num 5000) < PosInf
                    \<and> (\<forall>r'\<in>set rows. \<not> heightDistance r' (Num 5000) < heightDistance r (Num 5000))
                    \<and> (\<forall>j<i. \<not> heightDistance (rows ! j) (Num 5000) \<le> heightDistance r (Num 5000)))"
    and fin: "(\<forall>r\<in>set rows. isFinite (height r)) \<and> isFinite (Num 5000)
               \<longrightarrow> (res = None \<longleftrightarrow> rows = [])"
    by (elim exE conjE)
  have "res \<noteq> None" using fin by (simp add: rows_def hs)
  then obtain r where r: "res = Some r" by (cases res) simp_all
  from some r have "\<exists>i<length rows. r = rows ! i \<and> heightDistance r (Num 5000) < PosInf
                    \<and> (\<forall>r'\<in>set rows. \<not> heightDistance r' (Num 5000) < heightDistance r (Num 5000))
                    \<and> (\<forall>j<i. \<not> heightDistance (rows ! j) (Num 5000) \<le> heightDistance r (Num 5000))"
    by (rule_tac mp [OF spec [of _ r]])
  then obtain i where i: "i < length rows" "r = rows ! i"
    and least: "\<forall>r'\<in>set rows. \<not> heightDistance r' (Num 5000) < heightDistance r (Num 5000)"
    by (elim exE conjE)
  have "r2 \<in> set rows" by (simp add: rows_def)
  with least have nl: "\<not> heightDistance r2 (Num 5000) < heightDistance r (Num 5000)" by (rule bspec)
  from i(1) have "i = 0 \<or> i = 1 \<or> i = 2" by (auto simp: rows_def)
  then have "r = r2" using i(2) nl by (auto simp: rows_def ds)
  then have "interpolateDataAtHeight (Some sd) (Num 5000) = Inr (Some r2)" using res r by simp
  then show ?thesis by (simp add: sd_def rows_def r0_def r1_def r2_def)
qed

text \<open>
  Between two rows of different finite heights the ratio is a finite number, each column
  of the result is interpolated with it, and a column that is finite or \<open>NaN\<close> in both
  rows is \<open>NaN\<close> in the result exactly when it is \<open>NaN\<close> in one of them.
\<close>

lemma interpolated_NaN_iff:
  assumes "a \<noteq> PosInf" "a \<noteq> NegInf" "b \<noteq> PosInf" "b \<noteq> NegInf"
  shows "isNaN (a + Num r * (b - a)) \<longleftrightarrow> isNaN a \<or> isNaN b"
  using assms by (cases a; cases b) (simp_all add: minus_number_def)

lemma interpolateScan_distinct_heights:
  assumes "bracketsHeight lower upper (Num x)"
    and "height lower = Num h1" and "height upper = Num h2" and "h1 \<noteq> h2"
  shows "interpolateScan (lower # upper # rest) (Num x)
         = Some \<lparr>pressure = pressure lower + Num ((x - h1) / (h2 - h1)) * (pressure upper - pressure lower),
                  height = Num x,
                  temp = temp lower + Num ((x - h1) / (h2 - h1)) * (temp upper - temp lower),
                  dewpoint = dewpoint lower + Num ((x - h1) / (h2 - h1)) * (dewpoint upper - dewpoint lower),
                  windDir = windDir lower + Num ((x - h1) / (h2 - h1)) * (windDir upper - windDir lower),
                  windSpeed = windSpeed lower + Num ((x - h1) / (h2 - h1)) * (windSpeed upper - windSpeed lower)\<rparr>"
  using assms by (simp add: bracketsHeight_def Let_def)

text \<open>
  C5 fails between two adjacent rows of equal height: the ratio is \<open>0 / 0\<close>, and every
  column of the result is \<open>NaN\<close>, not only the temperature that was \<open>NaN\<close> in the
  lower row.
\<close>

theorem interpolateDataAtHeight_equal_heights:
  "interpolateDataAtHeight
     (Some \<lparr>data = Some
        [\<lparr>pressure = Num 1000, height = Num 100, temp = NaN, dewpoint = Num 5,
          windDir = Num 270, windSpeed = Num 5\<rparr>,
         \<lparr>pressure = Num 990, height = Num 100, temp = Num 10, dewpoint = Num 4,
          windDir = Num 280, windSpeed = Num 6\<rparr>], metadata = None\<rparr>)
     (Num 100)
   = Inr (Some \<lparr>pressure = NaN, height = Num 100, temp = NaN, dewpoint = NaN,
                 windDir = NaN, windSpeed = NaN\<rparr>)"
  by (simp add: interpolateDataAtHeight_def Let_def)

section \<open>Properties of the wind-barb encoder\<close>

lemma pennantCount_step: "47.5 \<le> s \<Longrightarrow> pennantCount s = Suc (pennantCount (s - 50))"
proof -
  assume s: "47.5 \<le> s"
  have fl: "\<lfloor>(s + 2.5) / 50\<rfloor> = \<lfloor>(s - 50 + 2.5) / 50\<rfloor> + 1"
  proof -
    define z where "z = (s - 50 + 2.5) / 50"
    have e: "(s + 2.5) / 50 = z + 1" by (simp add: z_def field_simps)
    have "\<lfloor>z + 1\<rfloor> = \<lfloor>z\<rfloor> + 1" by linarith
    then show ?thesis unfolding e z_def .
  qed
  show ?thesis
  proof (cases "s - 50 < 47.5")
    case True
    then have "1 \<le> (s + 2.5) / 50" "(s + 2.5) / 50 < 2" using s by simp_all
    then have "\<lfloor>(s + 2.5) / 50\<rfloor> = 1" by linarith
    then show ?thesis using s True by (simp add: pennantCount_def)
  next
    case False
    then have "0 \<le> (s - 50 + 2.5) / 50" by simp
    then have "0 \<le> \<lfloor>(s - 50 + 2.5) / 50\<rfloor>" by linarith
    then show ?thesis using s False fl by (simp add: pennantCount_def nat_add_distrib)
  qed
qed

lemma barbCount_step: "7.5 \<le> s \<Longrightarrow> barbCount s = Suc (barbCount (s - 10))"
proof -
  assume s: "7.5 \<le> s"
  have fl: "\<lfloor>(s + 2.5) / 10\<rfloor> = \<lfloor>(s - 10 + 2.5) / 10\<rfloor> + 1"
  proof -
    define z where "z = (s - 10 + 2.5) / 10"
    have e: "(s + 2.5) / 10 = z + 1" by (simp add: z_def field_simps)
    have "\<lfloor>z + 1\<rfloor> = \<lfloor>z\<rfloor> + 1" by linarith
    then show ?thesis unfolding e z_def .
  qed
  show ?thesis
  proof (cases "s - 10 < 7.5")
    case True
    then have "1 \<le> (s + 2.5) / 10" "(s + 2.5) / 10 < 2" using s by simp_all
    then have "\<lfloor>(s + 2.5) / 10\<rfloor> = 1" by linarith
    then show ?thesis using s True by (simp add: barbCount_def)
  next
    case False
    then have "0 \<le> (s - 10 + 2.5) / 10" by simp
    then have "0 \<le> \<lfloor>(s - 10 + 2.5) / 10\<rfloor>" by linarith
    then show ?thesis using s False fl by (simp add: barbCount_def nat_add_distrib)
  qed
qed

lemma pennantLoop_finite:
  "pennantLoop x y a (Num s) (Num dd)
   = Some (concat (map (\<lambda>k. pennant x y a (Num (dd - 10 * real k))) [0..<pennantCount s]),
           Num (s - 50 * real (pennantCount s)), Num (dd - 10 * real (pennantCount s)))"
proof (induction "pennantCount s" arbitrary: s dd)
  case 0
  then have "s < 47.5" using pennantCount_step [of s] by (cases "s < 47.5") simp_all
  then show ?case using 0 [symmetric] by (subst pennantLoop.simps) simp
next
  case (Suc n)
  then have s: "47.5 \<le> s" by (cases "s < 47.5") (simp_all add: pennantCount_def)
  then have cnt: "pennantCount s = Suc (pennantCount (s - 50))" by (rule pennantCount_step)
  then have n: "n = pennantCount (s - 50)" using Suc.hyps(2) by simp
  have rec: "pennantLoop x y a (Num (s - 50)) (Num (dd - 10))
     = Some (concat (map (\<lambda>k. pennant x y a (Num (dd - 10 - 10 * real k))) [0..<n]),
             Num (s - 50 - 50 * real n), Num (dd - 10 - 10 * real n))"
    using Suc.hyps(1) [OF n, of "dd - 10"] n by simp
  have step: "pennantLoop x y a (Num s) (Num dd)
     = Some (pennant x y a (Num dd)
               @ concat (map (\<lambda>k. pennant x y a (Num (dd - 10 - 10 * real k))) [0..<n]),
             Num (s - 50 - 50 * real n), Num (dd - 10 - 10 * real n))"
    using s rec by (subst pennantLoop.simps) simp
  have tgt: "concat (map (\<lambda>k. pennant x y a (Num (dd - 10 * real k))) [0..<Suc n])
     = pennant x y a (Num dd)
         @ concat (map (\<lambda>k. pennant x y a (Num (dd - 10 - 10 * real k))) [0..<n])"
    unfolding upt_0_Suc_map by (simp add: comp_def algebra_simps)
  have vals: "s - 50 * real (Suc n) = s - 50 - 50 * real n"
    "dd - 10 * real (Suc n) = dd - 10 - 10 * real n"
    by (simp_all add: algebra_simps)
  show ?case
    unfolding cnt n [symmetric] step tgt vals by simp
qed

lemma barbLoop_finite:
  "barbLoop x y a (Num s) (Num dd)
   = Some (concat (map (\<lambda>k. fullBarb x y a (Num (dd - 6 * real k))) [0..<barbCount s]),
           Num (s - 10 * real (barbCount s)), Num (dd - 6 * real (barbCount s)))"
proof (induction "barbCount s" arbitrary: s dd)
  case 0
  then have "s < 7.5" using barbCount_step [of s] by (cases "s < 7.5") simp_all
  then show ?case using 0 [symmetric] by (subst barbLoop.simps) simp
next
  case (Suc n)
  then have s: "7.5 \<le> s" by (cases "s < 7.5") (simp_all add: barbCount_def)
  then have cnt: "barbCount s = Suc (barbCount (s - 10))" by (rule barbCount_step)
  then have n: "n = barbCount (s - 10)" using Suc.hyps(2) by simp
  have rec: "barbLoop x y a (Num (s - 10)) (Num (dd - 6))
     = Some (concat (map (\<lambda>k. fullBarb x y a (Num (dd - 6 - 6 * real k))) [0..<n]),
             Num (s - 10 - 10 * real n), Num (dd - 6 - 6 * real n))"
    using Suc.hyps(1) [OF n, of "dd - 6"] n by simp
  have step: "barbLoop x y a (Num s) (Num dd)
     = Some (fullBarb x y a (Num dd)
               @ concat (map (\<lambda>k. fullBarb x y a (Num (dd - 6 - 6 * real k))) [0..<n]),
             Num (s - 10 - 10 * real n), Num (dd - 6 - 6 * real n))"
    using s rec by (subst barbLoop.simps) simp
  have tgt: "concat (map (\<lambda>k. fullBarb x y a (Num (dd - 6 * real k))) [0..<Suc n])
     = fullBarb x y a (Num dd)
         @ concat (map (\<lambda>k. fullBarb x y a (Num (dd - 6 - 6 * real k))) [0..<n])"
    unfolding upt_0_Suc_map by (simp add: comp_def algebra_simps)
  have vals: "s - 10 * real (Suc n) = s - 10 - 10 * real n"
    "dd - 6 * real (Suc n) = dd - 6 - 6 * real n"
    by (simp_all add: algebra_simps)
  show ?case
    unfolding cnt n [symmetric] step tgt vals by simp
qed

lemma drawWindBarb_finite:
  "drawWindBarb x y direction (Num v) =
     (let s = v * 3.6;
          angle = direction * Math_PI / Num 180;
          np = pennantCount s;
          s1 = s - 50 * real np;
          nb = barbCount s1;
          s2 = s1 - 10 * real nb
      in Some (if s < 2.5 then barbStyle @ calmCircle x y
               else barbStyle @ staff x y angle (Num 30)
                    @ concat (map (\<lambda>k. pennant x y angle (Num (30 - 10 * real k))) [0..<np])
                    @ concat (map (\<lambda>k. fullBarb x y angle (Num (30 - 10 * real np - 6 * real k)))
                                [0..<nb])
                    @ (if 2.5 \<le> s2 then halfBarb x y angle (Num (30 - 10 * real np - 6 * real nb))
                       else [])))"
  by (simp add: drawWindBarb_def Let_def pennantLoop_finite barbLoop_finite)








text \<open>
  A speed of \<open>Infinity\<close> is not below 2.5, and taking 50 off leaves \<open>Infinity\<close>: the
  pennant loop never ends and the encoder never returns.
\<close>

lemma PosInf_minus_Num [simp]: "PosInf - Num c = PosInf"
  by (simp add: minus_number_def)




section \<open>Properties of the profile curves\<close>

lemma tempToX_NaN: "tempToX d t NaN = NaN"
  by (simp add: tempToX_def skewOffset_def)

lemma heightToY_NaN: "heightToY d NaN = NaN"
  by (simp add: heightToY_def)

lemma temperatureRows_polyline:
  "temperatureRows d rows firstPoint
   = polylineFrom firstPoint
       (map (\<lambda>row. (tempToX d (temp row) (pressure row), heightToY d (height row)))
          (filter (\<lambda>row. \<not> (isNaN (temp row) \<or> pressure row < pMin d \<or> pressure row > pMax d
                              \<or> height row < hMin d \<or> height row > hMax d)) rows))"
  by (induction rows arbitrary: firstPoint) (simp_all add: Let_def)

lemma dewpointRows_polyline:
  "dewpointRows d rows firstPoint
   = polylineFrom firstPoint
       (map (\<lambda>row. (tempToX d (dewpoint row) (pressure row), heightToY d (height row)))
          (filter (\<lambda>row. \<not> (isNaN (dewpoint row) \<or> pressure row < pMin d \<or> pressure row > pMax d
                              \<or> height row < hMin d \<or> height row > hMax d)) rows))"
  by (induction rows arbitrary: firstPoint) (simp_all add: Let_def)

text \<open>
  After \<open>setHeightRange(500, 4500)\<close>, \<open>draw\<close> of a profile with rows runs the frame,
  then \<open>drawTemperatureProfile\<close>, \<open>drawDewpointProfile\<close>, the wind barbs and the title.
  The temperature polyline goes through the projections of exactly the rows that have
  neither a height below 500 or above 4500, nor a pressure below \<open>pMin\<close> or above
  \<open>pMax\<close>, nor a \<open>NaN\<close> temperature, in order and unclamped; the dewpoint polyline
  likewise with the dewpoint. A row whose pressure or height is \<open>NaN\<close> passes these tests
  and is drawn with a \<open>NaN\<close> coordinate.
\<close>

lemma profile_polylines_filter:
  assumes "data sd = Some rows" and "rows \<noteq> []"
    and "d1 = setHeightRange d (Num 500) (Num 4500)"
    and "d2 = fst (draw d1 (Some sd))"
  shows "snd (draw d1 (Some sd))
         = seq (drawFrame d2)
            (seq (emit (drawTemperatureProfile d2 rows))
            (seq (emit (drawDewpointProfile d2 rows))
            (seq (map_option Inr (drawWindBarbs d2 rows))
                 (emit (drawTitle d2 (metadata sd))))))
       \<and> drawTemperatureProfile d2 rows
         = [StrokeStyle ''#ff0000'', LineWidth (Num 2.5), BeginPath]
           @ polyline
               (map (\<lambda>row. (tempToX d2 (temp row) (pressure row), heightToY d2 (height row)))
                  (filter (\<lambda>row. \<not> (height row < Num 500 \<or> height row > Num 4500
                                      \<or> pressure row < pMin d \<or> pressure row > pMax d
                                      \<or> isNaN (temp row))) rows))
           @ [Stroke]
       \<and> drawDewpointProfile d2 rows
         = [StrokeStyle ''#00aa00'', LineWidth (Num 2.5), BeginPath]
           @ polyline
               (map (\<lambda>row. (tempToX d2 (dewpoint row) (pressure row), heightToY d2 (height row)))
                  (filter (\<lambda>row. \<not> (height row < Num 500 \<or> height row > Num 4500
                                      \<or> pressure row < pMin d \<or> pressure row > pMax d
                                      \<or> isNaN (dewpoint row))) rows))
           @ [Stroke]
       \<and> tempToX d2 t NaN = NaN \<and> heightToY d2 NaN = NaN
       \<and> soundingData d2 = Some sd \<and> data sd = Some rows"
proof -
  have d2: "d2 = d\<lparr>hMin := Num 500, hMax := Num 4500, soundingData := Some sd\<rparr>"
    using assms(3,4) by (simp add: draw_def setHeightRange_def Let_def)
  have out: "snd (draw d1 (Some sd))
         = seq (drawFrame d2)
            (seq (emit (drawTemperatureProfile d2 rows))
            (seq (emit (drawDewpointProfile d2 rows))
            (seq (map_option Inr (drawWindBarbs d2 rows))
                 (emit (drawTitle d2 (metadata sd))))))"
    using assms by (simp add: draw_def drawProfile_def Let_def seq_assoc)
  have f1: "(\<lambda>row. \<not> (isNaN (temp row) \<or> pressure row < pMin d2 \<or> pressure row > pMax d2
                              \<or> height row < hMin d2 \<or> height row > hMax d2))
          = (\<lambda>row. \<not> (height row < Num 500 \<or> height row > Num 4500
                                      \<or> pressure row < pMin d \<or> pressure row > pMax d
                                      \<or> isNaN (temp row)))"
    unfolding d2 by auto
  have f2: "(\<lambda>row. \<not> (isNaN (dewpoint row) \<or> pressure row < pMin d2 \<or> pressure row > pMax d2
                              \<or> height row < hMin d2 \<or> height row > hMax d2))
          = (\<lambda>row. \<not> (height row < Num 500 \<or> height row > Num 4500
                                      \<or> pressure row < pMin d \<or> pressure row > pMax d
                                      \<or> isNaN (dewpoint row)))"
    unfolding d2 by auto
  have t: "drawTemperatureProfile d2 rows
         = [StrokeStyle ''#ff0000'', LineWidth (Num 2.5), BeginPath]
           @ polyline
               (map (\<lambda>row. (tempToX d2 (temp row) (pressure row), heightToY d2 (height row)))
                  (filter (\<lambda>row. \<not> (height row < Num 500 \<or> height row > Num 4500
                                      \<or> pressure row < pMin d \<or> pressure row > pMax d
                                      \<or> isNaN (temp row))) rows))
           @ [Stroke]"
    unfolding drawTemperatureProfile_def temperatureRows_polyline f1 polyline_def ..
  have w: "drawDewpointProfile d2 rows
         = [StrokeStyle ''#00aa00'', LineWidth (Num 2.5), BeginPath]
           @ polyline
               (map (\<lambda>row. (tempToX d2 (dewpoint row) (pressure row), heightToY d2 (height row)))
                  (filter (\<lambda>row. \<not> (height row < Num 500 \<or> height row > Num 4500
                                      \<or> pressure row < pMin d \<or> pressure row > pMax d
                                      \<or> isNaN (dewpoint row))) rows))
           @ [Stroke]"
    unfolding drawDewpointProfile_def dewpointRows_polyline f2 polyline_def ..
  have s: "soundingData d2 = Some sd" unfolding d2 by simp
  show ?thesis using out t w s assms(1) tempToX_NaN heightToY_NaN by simp
qed


section \<open>Properties of the dry adiabats\<close>

lemma sampleCount_step:
  "0 < step \<Longrightarrow> lo \<le> hi \<Longrightarrow> sampleCount step lo hi = Suc (sampleCount step lo (hi - step))"
proof -
  assume st: "0 < step" and le: "lo \<le> hi"
  show ?thesis
  proof (cases "hi - step < lo")
    case True
    then have "(hi - lo) / step < 1" "0 \<le> (hi - lo) / step" using st le by simp_all
    then have "\<lfloor>(hi - lo) / step\<rfloor> = 0" by linarith
    then show ?thesis using True le by (simp add: sampleCount_def)
  next
    case False
    define z where "z = (hi - step - lo) / step"
    have e: "(hi - lo) / step = z + 1" using st by (simp add: z_def field_simps)
    have z0: "0 \<le> z" using False st by (simp add: z_def)
    then have "0 \<le> \<lfloor>z\<rfloor>" by linarith
    moreover have "\<lfloor>z + 1\<rfloor> = \<lfloor>z\<rfloor> + 1" by linarith
    ultimately have "nat \<lfloor>(hi - lo) / step\<rfloor> = Suc (nat \<lfloor>z\<rfloor>)"
      unfolding e by (simp add: nat_add_distrib)
    then show ?thesis using False le by (simp add: sampleCount_def z_def)
  qed
qed

lemma samples_step:
  "0 < step \<Longrightarrow> lo \<le> hi \<Longrightarrow> samples step lo hi = Num hi # samples step lo (hi - step)"
  by (simp add: samples_def sampleCount_step upt_0_Suc_map comp_def algebra_simps
        del: upt_Suc)

lemma samples_empty: "hi < lo \<Longrightarrow> samples step lo hi = []"
  by (simp add: samples_def sampleCount_def)

lemma adiabatSweep_finite:
  assumes "pMin d = Num lo" and "\<not> emptyProfile d"
  shows "adiabatSweep d tOf (Num hi) firstPoint
         = Some (Inr (polylineFrom firstPoint
             (map (\<lambda>p. (tempToX d (tOf p) p, projr (pressureToY d p)))
                (filter (\<lambda>p. \<not> (tOf p < tMin d - Num 20 \<or> tOf p > tMax d + Num 40))
                   (samples 5 lo hi)))))"
proof (induction "sampleCount 5 lo hi" arbitrary: hi firstPoint)
  case 0
  then have lt: "hi < lo" by (cases "hi < lo") (simp_all add: sampleCount_def)
  then show ?case using assms(1) by (subst adiabatSweep.simps) (simp add: samples_empty)
next
  case (Suc n)
  then have le: "lo \<le> hi" by (cases "hi < lo") (simp_all add: sampleCount_def)
  have cnt: "sampleCount 5 lo hi = Suc (sampleCount 5 lo (hi - 5))"
    using le by (simp add: sampleCount_step)
  then have n: "n = sampleCount 5 lo (hi - 5)" using Suc.hyps(2) by simp
  have sm: "samples 5 lo hi = Num hi # samples 5 lo (hi - 5)"
    using le by (simp add: samples_step)
  note IH = Suc.hyps(1) [OF n]
  have y: "pressureToY d (Num hi) = Inr (projr (pressureToY d (Num hi)))"
    using assms(2) by (rule pressureToY_returns)
  show ?case
  proof (cases "tOf (Num hi) < tMin d - Num 20 \<or> tOf (Num hi) > tMax d + Num 40")
    case True
    then have "adiabatSweep d tOf (Num hi) firstPoint = adiabatSweep d tOf (Num (hi - 5)) firstPoint"
      using assms(1) le by (subst adiabatSweep.simps) (auto simp: Let_def)
    moreover have "filter (\<lambda>p. \<not> (tOf p < tMin d - Num 20 \<or> tOf p > tMax d + Num 40))
                     (samples 5 lo hi)
                 = filter (\<lambda>p. \<not> (tOf p < tMin d - Num 20 \<or> tOf p > tMax d + Num 40))
                     (samples 5 lo (hi - 5))"
      unfolding sm using True by auto
    ultimately show ?thesis using IH [of firstPoint] by simp
  next
    case False
    then have "adiabatSweep d tOf (Num hi) firstPoint
       = Option.bind (adiabatSweep d tOf (Num (hi - 5)) False)
           (\<lambda>r. case r of
                  Inl e \<Rightarrow> Some (Inl e)
                | Inr rest \<Rightarrow>
                    Some (Inr ((if firstPoint
                                then MoveTo (tempToX d (tOf (Num hi)) (Num hi)) (projr (pressureToY d (Num hi)))
                                else LineTo (tempToX d (tOf (Num hi)) (Num hi)) (projr (pressureToY d (Num hi))))
                               # rest)))"
      using assms(1) le by (subst adiabatSweep.simps, subst y) (auto simp: Let_def)
    moreover have "filter (\<lambda>p. \<not> (tOf p < tMin d - Num 20 \<or> tOf p > tMax d + Num 40))
                     (samples 5 lo hi)
                 = Num hi # filter (\<lambda>p. \<not> (tOf p < tMin d - Num 20 \<or> tOf p > tMax d + Num 40))
                     (samples 5 lo (hi - 5))"
      unfolding sm using False by auto
    ultimately show ?thesis using IH [of False] by simp
  qed
qed

lemma dryAdiabatLoop_thetas:
  "dryAdiabatLoop d 200
   = foldr (\<lambda>theta rest.
        seq (emit [BeginPath])
          (seq (adiabatSweep d (dryAdiabatT (Num (of_int theta))) (pMax d) True)
             (seq (emit [Stroke]) rest)))
      dryThetas (emit [])"
  by (simp add: dryThetas_def)

lemma dryAdiabatT_Num:
  "0 \<le> p \<Longrightarrow> dryAdiabatT (Num theta) (Num p) = Num (theta * (p / 1000) powr 0.286 - 273.15)"
  by (simp add: dryAdiabatT_def)

lemma dryAdiabatT_300_1000: "dryAdiabatT (Num 300) (Num 1000) = Num 26.85"
  by (simp add: dryAdiabatT_def)

lemma samples_set:
  assumes "0 < step"
  shows "set (samples step lo hi) = {Num (hi - step * real k) | k. lo \<le> hi - step * real k}"
proof -
  have iff: "k < sampleCount step lo hi \<longleftrightarrow> lo \<le> hi - step * real k" for k
  proof (cases "hi < lo")
    case True
    have "0 \<le> step * real k" using assms by simp
    then have "\<not> lo \<le> hi - step * real k" using True by linarith
    then show ?thesis using True by (simp add: sampleCount_def)
  next
    case False
    have "k < Suc (nat \<lfloor>(hi - lo) / step\<rfloor>) \<longleftrightarrow> int k \<le> \<lfloor>(hi - lo) / step\<rfloor>"
      using False assms by (simp add: less_Suc_eq_le nat_le_iff le_nat_iff)
    also have "\<dots> \<longleftrightarrow> real k \<le> (hi - lo) / step"
      by (metis le_floor_iff of_int_of_nat_eq)
    also have "\<dots> \<longleftrightarrow> lo \<le> hi - step * real k"
      using assms by (simp add: field_simps)
    finally show ?thesis using False by (simp add: sampleCount_def)
  qed
  show ?thesis unfolding samples_def using iff by auto
qed

text \<open>
  C8. \<open>drawDryAdiabats\<close> draws one path for each potential temperature 200, 210, ..., 500.
  With finite pressure bounds, and unless the loaded profile is empty, the path for
  \<open>theta\<close> goes through the projections of the pressures \<open>pMax\<close>, \<open>pMax - 5\<close>, ... down to
  \<open>pMin\<close> whose temperature \<open>T(p) = theta * (p / 1000) ^ 0.286 - 273.15\<close> is neither below
  \<open>tMin - 20\<close> nor above \<open>tMax + 40\<close>; the other pressures are left out, none is moved.
  At \<open>theta = 300\<close> and \<open>p = 1000\<close> the temperature is 26.85.
\<close>

theorem dryAdiabats_spec:
  "drawDryAdiabats d
     = seq (emit [StrokeStyle ''rgba(255, 140, 0, 0.4)'', LineWidth (Num 1)])
         (foldr (\<lambda>theta rest.
              seq (emit [BeginPath])
                (seq (adiabatSweep d (dryAdiabatT (Num (of_int theta))) (pMax d) True)
                   (seq (emit [Stroke]) rest)))
            dryThetas (emit []))
   \<and> (pMin d = Num lo \<and> pMax d = Num hi \<and> \<not> emptyProfile d \<longrightarrow>
        adiabatSweep d (dryAdiabatT (Num theta)) (pMax d) True
        = Some (Inr (polyline
            (map (\<lambda>p. (tempToX d (dryAdiabatT (Num theta) p) p, projr (pressureToY d p)))
               (filter (\<lambda>p. \<not> (dryAdiabatT (Num theta) p < tMin d - Num 20
                                \<or> dryAdiabatT (Num theta) p > tMax d + Num 40))
                  (samples 5 lo hi))))))
   \<and> set (samples 5 lo hi) = {Num (hi - 5 * real k) | k. lo \<le> hi - 5 * real k}
   \<and> (\<forall>p\<ge>0. dryAdiabatT (Num theta) (Num p) = Num (theta * (p / 1000) powr 0.286 - 273.15))
   \<and> dryAdiabatT (Num 300) (Num 1000) = Num 26.85"
proof (intro conjI impI)
  show "drawDryAdiabats d
     = seq (emit [StrokeStyle ''rgba(255, 140, 0, 0.4)'', LineWidth (Num 1)])
         (foldr (\<lambda>theta rest.
              seq (emit [BeginPath])
                (seq (adiabatSweep d (dryAdiabatT (Num (of_int theta))) (pMax d) True)
                   (seq (emit [Stroke]) rest)))
            dryThetas (emit []))"
    unfolding drawDryAdiabats_def dryAdiabatLoop_thetas ..
next
  assume a: "pMin d = Num lo \<and> pMax d = Num hi \<and> \<not> emptyProfile d"
  then have "adiabatSweep d (dryAdiabatT (Num theta)) (Num hi) True
        = Some (Inr (polylineFrom True
            (map (\<lambda>p. (tempToX d (dryAdiabatT (Num theta) p) p, projr (pressureToY d p)))
               (filter (\<lambda>p. \<not> (dryAdiabatT (Num theta) p < tMin d - Num 20
                                \<or> dryAdiabatT (Num theta) p > tMax d + Num 40))
                  (samples 5 lo hi)))))"
    using adiabatSweep_finite [of d lo "dryAdiabatT (Num theta)" hi True] by blast
  then show "adiabatSweep d (dryAdiabatT (Num theta)) (pMax d) True
        = Some (Inr (polyline
            (map (\<lambda>p. (tempToX d (dryAdiabatT (Num theta) p) p, projr (pressureToY d p)))
               (filter (\<lambda>p. \<not> (dryAdiabatT (Num theta) p < tMin d - Num 20
                                \<or> dryAdiabatT (Num theta) p > tMax d + Num 40))
                  (samples 5 lo hi)))))"
    using a by (simp add: polyline_def)
next
  show "set (samples 5 lo hi) = {Num (hi - 5 * real k) | k. lo \<le> hi - 5 * real k}"
    by (rule samples_set) simp
next
  show "\<forall>p\<ge>0. dryAdiabatT (Num theta) (Num p) = Num (theta * (p / 1000) powr 0.286 - 273.15)"
    by (simp add: dryAdiabatT_Num)
next
  show "dryAdiabatT (Num 300) (Num 1000) = Num 26.85"
    by (rule dryAdiabatT_300_1000)
qed

theorem dryAdiabats_spec_witness:
  "adiabatSweep ((SkewTDiagram 800 600)\<lparr>pMin := Num 1000, pMax := Num 1000\<rparr>)
     (dryAdiabatT (Num 300)) (Num 1000) True
   = Some (Inr [MoveTo (Num (100 + 550 * (86.85 / 110)))
                  (heightToY ((SkewTDiagram 800 600)\<lparr>pMin := Num 1000, pMax := Num 1000\<rparr>)
                     (standardAtmosphere (Num 1000)))])"
proof -
  define d where "d = (SkewTDiagram 800 600)\<lparr>pMin := Num 1000, pMax := Num 1000\<rparr>"
  have h: "pMin d = Num 1000 \<and> pMax d = Num 1000 \<and> \<not> emptyProfile d"
    by (simp add: d_def SkewTDiagram_def emptyProfile_def)
  have s: "samples 5 1000 1000 = [Num 1000]"
    by (simp add: samples_def sampleCount_def)
  have t: "dryAdiabatT (Num 300) (Num 1000) = Num 26.85"
    by (simp add: dryAdiabatT_def)
  have x: "tempToX d (Num 26.85) (Num 1000) = Num (100 + 550 * (86.85 / 110))"
    by (simp add: d_def SkewTDiagram_def tempToX_def baseX_def skewOffset_def Let_def)
  have y: "projr (pressureToY d (Num 1000)) = heightToY d (standardAtmosphere (Num 1000))"
    by (simp add: d_def SkewTDiagram_def pressureToY_def pressureToHeight_def)
  have keep: "\<not> (Num 26.85 < tMin d - Num 20 \<or> Num 26.85 > tMax d + Num 40)"
    by (simp add: d_def SkewTDiagram_def)
  from dryAdiabats_spec [of d 1000 1000 300, THEN conjunct2, THEN conjunct1] h
  have "adiabatSweep d (dryAdiabatT (Num 300)) (pMax d) True
        = Some (Inr (polyline
            (map (\<lambda>p. (tempToX d (dryAdiabatT (Num 300) p) p, projr (pressureToY d p)))
               (filter (\<lambda>p. \<not> (dryAdiabatT (Num 300) p < tMin d - Num 20
                                \<or> dryAdiabatT (Num 300) p > tMax d + Num 40))
                  (samples 5 1000 1000)))))"
    by blast
  then have "adiabatSweep d (dryAdiabatT (Num 300)) (Num 1000) True
     = Some (Inr [MoveTo (Num (100 + 550 * (86.85 / 110)))
                    (heightToY d (standardAtmosphere (Num 1000)))])"
    unfolding s using h keep x by (simp add: t y polyline_def)
  then show ?thesis unfolding d_def .
qed

section \<open>Drawing an empty profile\<close>

lemma sampleCount_shift: "sampleCount step (lo + step) hi = sampleCount step lo (hi - step)"
proof -
  have e: "hi - (lo + step) = hi - step - lo" by simp
  have "hi < lo + step \<longleftrightarrow> hi - step < lo" by linarith
  then show ?thesis unfolding sampleCount_def e by simp
qed

text \<open>With finite height bounds the loop of \<open>drawHeightAxis\<close> ends.\<close>

lemma heightAxisLoop_finite:
  assumes "hMax d = Num hi" and "0 < c"
  shows "heightAxisLoop d (Num c) (Num h)
         = Some (concat (map (\<lambda>k. heightTick d (Num (h + c * real k))) [0..<sampleCount c h hi]))"
proof (induction "sampleCount c h hi" arbitrary: h)
  case 0
  then have "hi < h" by (cases "hi < h") (simp_all add: sampleCount_def)
  then show ?case using assms(1) 0 [symmetric] by (subst heightAxisLoop.simps) simp
next
  case (Suc n)
  then have le: "h \<le> hi" by (cases "hi < h") (simp_all add: sampleCount_def)
  have cnt: "sampleCount c h hi = Suc (sampleCount c (h + c) hi)"
    using le assms(2) by (simp add: sampleCount_step sampleCount_shift)
  then have n: "n = sampleCount c (h + c) hi" using Suc.hyps(2) by simp
  have rec: "heightAxisLoop d (Num c) (Num (h + c))
     = Some (concat (map (\<lambda>k. heightTick d (Num (h + c + c * real k))) [0..<n]))"
    using Suc.hyps(1) [OF n] n by simp
  have step: "heightAxisLoop d (Num c) (Num h)
     = Some (heightTick d (Num h)
             @ concat (map (\<lambda>k. heightTick d (Num (h + c + c * real k))) [0..<n]))"
    using le assms(1) rec by (subst heightAxisLoop.simps) simp
  have tgt: "concat (map (\<lambda>k. heightTick d (Num (h + c * real k))) [0..<Suc n])
     = heightTick d (Num h)
       @ concat (map (\<lambda>k. heightTick d (Num (h + c + c * real k))) [0..<n])"
    unfolding upt_0_Suc_map by (simp add: comp_def algebra_simps)
  show ?case unfolding cnt n [symmetric] step tgt ..
qed

lemma heightInterval_finite:
  assumes "hMin d = Num lo" and "hMax d = Num hi"
  shows "\<exists>c>0. heightInterval d = Num c"
  using assms by (simp add: heightInterval_def Let_def)

lemma drawHeightAxis_returns:
  assumes "hMin d = Num lo" and "hMax d = Num hi"
  shows "\<exists>cs. drawHeightAxis d = Some cs"
proof -
  obtain c where c: "0 < c" "heightInterval d = Num c"
    using heightInterval_finite [OF assms] by blast
  have "Math_ceil (hMin d / Num c) * Num c = Num (of_int \<lceil>lo / c\<rceil> * c)"
    using assms(1) c(1) by simp
  then show ?thesis
    using heightAxisLoop_finite [OF assms(2) c(1)] c(2)
    by (simp add: drawHeightAxis_def Let_def)
qed

lemma drawPressureLines_throws:
  assumes "emptyProfile d" and "\<not> (Num 1000 < pMin d \<or> Num 1000 > pMax d)"
  shows "drawPressureLines d = Inl TypeError"
proof -
  have "pressureToHeight d (Num 1000) = Inl TypeError"
    using assms(1) by (simp add: pressureToHeight_throws_iff)
  then have "pressureLine d True (Num 1000) = Inl TypeError"
    using assms(2) by (simp add: pressureLine_def)
  then have "forEach (pressureLine d True) pressures = Inl TypeError"
    by (simp add: pressures_def)
  then show ?thesis by (simp add: drawPressureLines_def)
qed

lemma draw_empty_profile:
  assumes "data sd = Some []" and "hMin d = Num lo" and "hMax d = Num hi"
    and "\<not> (Num 1000 < pMin d \<or> Num 1000 > pMax d)"
  shows "snd (draw d (Some sd)) = Some (Inl TypeError)"
proof -
  define d' where "d' = d\<lparr>soundingData := Some sd\<rparr>"
  have e: "emptyProfile d'" using assms(1) by (simp add: d'_def emptyProfile_def)
  have "hMin d' = Num lo" "hMax d' = Num hi" using assms(2,3) by (simp_all add: d'_def)
  then obtain cs where ax: "drawHeightAxis d' = Some cs"
    using drawHeightAxis_returns by blast
  have "\<not> (Num 1000 < pMin d' \<or> Num 1000 > pMax d')" using assms(4) by (simp add: d'_def)
  then have pl: "drawPressureLines d' = Inl TypeError"
    using e by (rule drawPressureLines_throws [rotated])
  have "drawFrame d' = Some (Inl TypeError)"
    by (simp add: drawFrame_def ax pl seq_def emit_def)
  then show ?thesis by (simp add: draw_def d'_def [symmetric] Let_def seq_def)
qed

text \<open>
  C1 fails: \<open>draw\<close> of a sounding whose \<open>data\<close> is the empty array, on a diagram as the
  constructor leaves it, draws the height axis and then raises a \<open>TypeError\<close> at the first
  isobar, where \<open>pressureToHeight(1000)\<close> reads \<open>data[0].pressure\<close>. No reference curve,
  border or title is drawn.
\<close>

theorem draw_empty_profile_throws:
  "snd (draw (SkewTDiagram 800 600) (Some \<lparr>data = Some [], metadata = None\<rparr>))
     = Some (Inl TypeError)
   \<and> pressureToHeight (fst (draw (SkewTDiagram 800 600) (Some \<lparr>data = Some [], metadata = None\<rparr>)))
       (Num 1000) = Inl TypeError"
proof -
  have "snd (draw (SkewTDiagram 800 600) (Some \<lparr>data = Some [], metadata = None\<rparr>))
     = Some (Inl TypeError)"
    by (rule draw_empty_profile [where lo = 0 and hi = 4500]) (simp_all add: SkewTDiagram_def)
  moreover have "pressureToHeight (fst (draw (SkewTDiagram 800 600) (Some \<lparr>data = Some [], metadata = None\<rparr>)))
       (Num 1000) = Inl TypeError"
    by (simp add: draw_def Let_def pressureToHeight_def)
  ultimately show ?thesis by simp
qed


section \<open>Drawing a profile with a missing height\<close>

text \<open>
  With finite bounds and a profile that is not empty, the frame returns; with finite wind
  speeds the wind barbs return, and so does \<open>draw\<close>.
\<close>

lemma returns_iff: "returns out \<longleftrightarrow> (\<exists>cs. out = Some (Inr cs))"
  by (auto simp: returns_def split: option.splits sum.splits)

lemma returns_emit [simp]: "returns (emit cs)"
  by (simp add: returns_def emit_def)

lemma returns_seq: "returns a \<Longrightarrow> returns b \<Longrightarrow> returns (seq a b)"
  by (auto simp: returns_iff seq_def)

lemma forEach_returns:
  "(\<And>x. \<exists>cs. f x = Inr cs) \<Longrightarrow> \<exists>cs. forEach f xs = Inr cs"
proof (induction xs)
  case Nil
  then show ?case by simp
next
  case (Cons x xs)
  obtain c where c: "f x = Inr c" using Cons.prems by blast
  obtain cs where cs: "forEach f xs = Inr cs" using Cons by blast
  show ?case by (simp add: c cs)
qed

lemma pressureLine_returns:
  assumes "\<not> emptyProfile d"
  shows "\<exists>cs. pressureLine d labelled p = Inr cs"
proof -
  have "pressureToHeight d p \<noteq> Inl TypeError"
    using assms by (simp add: pressureToHeight_throws_iff)
  then obtain h where "pressureToHeight d p = Inr h"
    by (cases "pressureToHeight d p") (auto intro: error.exhaust)
  then show ?thesis by (simp add: pressureLine_def Let_def)
qed

lemma drawPressureLines_returns:
  assumes "\<not> emptyProfile d"
  shows "\<exists>cs. drawPressureLines d = Inr cs"
proof -
  obtain major where "forEach (pressureLine d True) pressures = Inr major"
    using forEach_returns [of "pressureLine d True"] pressureLine_returns [OF assms] by blast
  moreover obtain minor where "forEach (pressureLine d False) minorPressures = Inr minor"
    using forEach_returns [of "pressureLine d False"] pressureLine_returns [OF assms] by blast
  ultimately show ?thesis by (simp add: drawPressureLines_def)
qed

lemma isotherm_returns:
  assumes "\<not> emptyProfile d"
  shows "\<exists>cs. isotherm d t = Inr cs"
proof -
  have "pressureToY d (pMax d) = Inr (projr (pressureToY d (pMax d)))"
    "pressureToY d (pMin d) = Inr (projr (pressureToY d (pMin d)))"
    using assms by (rule pressureToY_returns)+
  then obtain y1 y2 where "pressureToY d (pMax d) = Inr y1" "pressureToY d (pMin d) = Inr y2"
    by blast
  then show ?thesis by (simp add: isotherm_def Let_def)
qed

lemma isothermLoop_returns:
  "\<not> emptyProfile d \<Longrightarrow> \<exists>cs. isothermLoop d t = Inr cs"
proof (induction d t rule: isothermLoop.induct)
  case (1 d t)
  show ?case
  proof (cases "t \<le> 50")
    case True
    obtain c where c: "isotherm d t = Inr c" using isotherm_returns [OF "1.prems"] by blast
    obtain cs where cs: "isothermLoop d (t + 10) = Inr cs"
      using "1.IH" [OF True c "1.prems"] by blast
    show ?thesis using True c cs by (subst isothermLoop.simps) simp
  next
    case False
    then show ?thesis by (subst isothermLoop.simps) simp
  qed
qed

lemma drawIsotherms_returns:
  "\<not> emptyProfile d \<Longrightarrow> \<exists>cs. drawIsotherms d = Inr cs"
  using isothermLoop_returns [of d "- 100"] by (auto simp: drawIsotherms_def)

lemma adiabatSweep_returns:
  assumes "pMin d = Num lo" and "\<not> emptyProfile d"
  shows "returns (adiabatSweep d tOf (Num hi) firstPoint)"
  unfolding adiabatSweep_finite [OF assms] by (simp add: returns_def)

lemma dryAdiabatLoop_returns:
  "pMin d = Num lo \<Longrightarrow> pMax d = Num hi \<Longrightarrow> \<not> emptyProfile d
   \<Longrightarrow> returns (dryAdiabatLoop d theta)"
proof (induction d theta rule: dryAdiabatLoop.induct)
  case (1 d theta)
  show ?case
  proof (cases "theta \<le> 500")
    case True
    have sw: "returns (adiabatSweep d (dryAdiabatT (Num (of_int theta))) (pMax d) True)"
      using adiabatSweep_returns [OF "1.prems"(1,3)] "1.prems"(2) by simp
    have rest: "returns (dryAdiabatLoop d (theta + 10))"
      using "1.IH" [OF True "1.prems"] .
    show ?thesis using True sw rest
      by (subst dryAdiabatLoop.simps) (simp add: returns_seq)
  next
    case False
    then show ?thesis by (subst dryAdiabatLoop.simps) simp
  qed
qed

lemma moistAdiabatLoop_returns:
  "pMin d = Num lo \<Longrightarrow> pMax d = Num hi \<Longrightarrow> \<not> emptyProfile d
   \<Longrightarrow> returns (moistAdiabatLoop d thetaE)"
proof (induction d thetaE rule: moistAdiabatLoop.induct)
  case (1 d thetaE)
  show ?case
  proof (cases "thetaE \<le> 380")
    case True
    have sw: "returns (adiabatSweep d (moistAdiabatT (Num (of_int thetaE))) (pMax d) True)"
      using adiabatSweep_returns [OF "1.prems"(1,3)] "1.prems"(2) by simp
    have rest: "returns (moistAdiabatLoop d (thetaE + 10))"
      using "1.IH" [OF True "1.prems"] .
    show ?thesis using True sw rest
      by (subst moistAdiabatLoop.simps) (simp add: returns_seq)
  next
    case False
    then show ?thesis by (subst moistAdiabatLoop.simps) simp
  qed
qed

lemma mixingRatioSweep_returns:
  assumes "\<not> emptyProfile d"
  shows "returns (mixingRatioSweep d w (Num hi) firstPoint)"
proof (induction "sampleCount 10 600 hi" arbitrary: hi firstPoint)
  case 0
  then have "hi < 600" by (cases "hi < 600") (simp_all add: sampleCount_def)
  then show ?case by (subst mixingRatioSweep.simps) (simp add: returns_def)
next
  case (Suc n)
  then have le: "600 \<le> hi" by (cases "hi < 600") (simp_all add: sampleCount_def)
  have "sampleCount 10 600 hi = Suc (sampleCount 10 600 (hi - 10))"
    using le by (simp add: sampleCount_step)
  then have n: "n = sampleCount 10 600 (hi - 10)" using Suc.hyps(2) by simp
  note IH = Suc.hyps(1) [OF n]
  have y: "pressureToY d (Num hi) = Inr (projr (pressureToY d (Num hi)))"
    using assms by (rule pressureToY_returns)
  obtain c1 where c1: "mixingRatioSweep d w (Num (hi - 10)) firstPoint = Some (Inr c1)"
    using IH [of firstPoint] by (auto simp: returns_iff)
  obtain c2 where c2: "mixingRatioSweep d w (Num (hi - 10)) False = Some (Inr c2)"
    using IH [of False] by (auto simp: returns_iff)
  show ?case
    using le c1 c2
    by (subst mixingRatioSweep.simps, subst y) (simp add: Let_def returns_def)
qed

lemma mixingRatioLoop_returns:
  "pMax d = Num hi \<Longrightarrow> \<not> emptyProfile d \<Longrightarrow> returns (mixingRatioLoop d ws)"
proof (induction ws)
  case Nil
  then show ?case by simp
next
  case (Cons w ws)
  have "returns (mixingRatioSweep d w (pMax d) True)"
    using mixingRatioSweep_returns [OF Cons.prems(2)] Cons.prems(1) by simp
  then show ?case using Cons by (simp add: returns_seq)
qed

lemma drawFrame_returns:
  assumes "hMin d = Num a" and "hMax d = Num b" and "pMin d = Num lo" and "pMax d = Num hi"
    and "\<not> emptyProfile d"
  shows "returns (drawFrame d)"
proof -
  obtain ax where ax: "drawHeightAxis d = Some ax"
    using drawHeightAxis_returns [OF assms(1,2)] by blast
  obtain pl where pl: "drawPressureLines d = Inr pl"
    using drawPressureLines_returns [OF assms(5)] by blast
  obtain it where it: "drawIsotherms d = Inr it"
    using drawIsotherms_returns [OF assms(5)] by blast
  have "returns (map_option Inr (drawHeightAxis d))" by (simp add: ax returns_def)
  moreover have "returns (Some (drawPressureLines d))" by (simp add: pl returns_def)
  moreover have "returns (Some (drawIsotherms d))" by (simp add: it returns_def)
  moreover have "returns (drawDryAdiabats d)"
    unfolding drawDryAdiabats_def
    by (intro returns_seq returns_emit dryAdiabatLoop_returns [OF assms(3,4,5)])
  moreover have "returns (drawMoistAdiabats d)"
    unfolding drawMoistAdiabats_def
    by (intro returns_seq returns_emit moistAdiabatLoop_returns [OF assms(3,4,5)])
  moreover have "returns (drawMixingRatioLines d)"
    unfolding drawMixingRatioLines_def
    by (intro returns_seq returns_emit mixingRatioLoop_returns [OF assms(4,5)])
  ultimately show ?thesis unfolding drawFrame_def by (intro returns_seq returns_emit)
qed

lemma drawWindBarb_returns: "\<exists>cs. drawWindBarb x y direction (Num v) = Some cs"
  by (simp add: drawWindBarb_finite Let_def)

lemma windRows_subset:
  "set (windRows d interval rows lastH windData) \<subseteq> set windData \<union> set rows"
proof (induction rows arbitrary: lastH windData)
  case Nil
  then show ?case by simp
next
  case (Cons row rows)
  have A: "set (windRows d interval rows (height row) (windData @ [row]))
           \<subseteq> set (windData @ [row]) \<union> set rows"
    by (rule Cons.IH)
  have B: "set (windRows d interval rows lastH windData) \<subseteq> set windData \<union> set rows"
    by (rule Cons.IH)
  have "windRows d interval (row # rows) lastH windData
          = windRows d interval rows (height row) (windData @ [row])
        \<or> windRows d interval (row # rows) lastH windData
          = windRows d interval rows lastH windData"
    by simp
  then show ?case
  proof
    assume e: "windRows d interval (row # rows) lastH windData
          = windRows d interval rows (height row) (windData @ [row])"
    show ?thesis unfolding e using A by auto
  next
    assume e: "windRows d interval (row # rows) lastH windData
          = windRows d interval rows lastH windData"
    show ?thesis unfolding e using B by auto
  qed
qed

lemma barbRows_returns:
  "\<forall>r\<in>set rows. isFinite (windSpeed r) \<Longrightarrow> \<exists>cs. barbRows d xBarb rows = Some cs"
proof (induction rows)
  case Nil
  then show ?case by simp
next
  case (Cons row rows)
  obtain v where "windSpeed row = Num v" using Cons.prems by (auto simp: isFinite_iff)
  then obtain c where "drawWindBarb xBarb (heightToY d (height row)) (windDir row) (windSpeed row)
      = Some c"
    using drawWindBarb_returns by metis
  moreover obtain cs where "barbRows d xBarb rows = Some cs" using Cons by auto
  ultimately show ?case by simp
qed

lemma drawWindBarbs_returns:
  assumes "\<forall>r\<in>set rows. isFinite (windSpeed r)"
  shows "\<exists>cs. drawWindBarbs d rows = Some cs"
proof -
  have "\<forall>r\<in>set (windRows d interval rows lastH []). isFinite (windSpeed r)" for interval lastH
    using assms windRows_subset [of d interval rows lastH "[]"] by auto
  then show ?thesis unfolding drawWindBarbs_def Let_def by (intro barbRows_returns)
qed

lemma draw_returns:
  assumes "hMin d = Num a" and "hMax d = Num b" and "pMin d = Num lo" and "pMax d = Num hi"
    and "data sd = Some rows" and "rows \<noteq> []"
    and "\<forall>r\<in>set rows. isFinite (windSpeed r)"
  shows "\<exists>frame barbs. snd (draw d (Some sd))
           = Some (Inr (frame
                        @ drawTemperatureProfile (d\<lparr>soundingData := Some sd\<rparr>) rows
                        @ drawDewpointProfile (d\<lparr>soundingData := Some sd\<rparr>) rows
                        @ barbs
                        @ drawTitle (d\<lparr>soundingData := Some sd\<rparr>) (metadata sd)))"
proof -
  define d' where "d' = d\<lparr>soundingData := Some sd\<rparr>"
  have ne: "\<not> emptyProfile d'" using assms(5,6) by (simp add: d'_def emptyProfile_def)
  have "returns (drawFrame d')"
    by (rule drawFrame_returns [OF _ _ _ _ ne, of a b lo hi]) (simp_all add: d'_def assms)
  then obtain frame where frame: "drawFrame d' = Some (Inr frame)" by (auto simp: returns_iff)
  obtain barbs where barbs: "drawWindBarbs d' rows = Some barbs"
    using drawWindBarbs_returns [OF assms(7)] by blast
  have "snd (draw d (Some sd))
        = Some (Inr (frame @ drawTemperatureProfile d' rows @ drawDewpointProfile d' rows
                     @ barbs @ drawTitle d' (metadata sd)))"
    using assms(5,6)
    by (simp add: draw_def Let_def d'_def [symmetric] drawProfile_def frame barbs seq_def emit_def)
  then show ?thesis unfolding d'_def by blast
qed

text \<open>
  C6 fails for a row whose height is \<open>NaN\<close>: after \<open>setHeightRange(500, 4500)\<close>, \<open>draw\<close> of
  three rows whose second has no height returns, and the temperature polyline has a
  \<open>lineTo\<close> for that row, with \<open>NaN\<close> as its \<open>y\<close>. \<open>NaN < hMin\<close> and \<open>NaN > hMax\<close> are
  both false, so the row is not skipped. The wind-barb filter of the same \<open>draw\<close> tests
  \<open>height >= hMin && height <= hMax\<close> and leaves the row out.
\<close>

theorem draw_NaN_height_not_skipped:
  "(\<exists>before after.
      snd (draw (setHeightRange (SkewTDiagram 800 600) (Num 500) (Num 4500))
             (Some \<lparr>data = Some
                [\<lparr>pressure = Num 1000, height = Num 600, temp = Num 20, dewpoint = Num 10,
                  windDir = Num 270, windSpeed = Num 5\<rparr>,
                 \<lparr>pressure = Num 850, height = NaN, temp = Num 10, dewpoint = Num 5,
                  windDir = Num 280, windSpeed = Num 10\<rparr>,
                 \<lparr>pressure = Num 700, height = Num 3000, temp = Num 0, dewpoint = Num (- 5),
                  windDir = Num 290, windSpeed = Num 15\<rparr>], metadata = None\<rparr>))
      = Some (Inr (before
           @ [StrokeStyle ''#ff0000'', LineWidth (Num 2.5), BeginPath,
              MoveTo (Num (100 + 550 * (80 / 110)) + Num (35 * (ln 1050 - ln 1000))) (Num 537.5),
              LineTo (Num (100 + 550 * (70 / 110)) + Num (35 * (ln 1050 - ln 850))) NaN,
              LineTo (Num (100 + 550 * (60 / 110)) + Num (35 * (ln 1050 - ln 700))) (Num 237.5),
              Stroke]
           @ after)))
   \<and> windRows ((SkewTDiagram 800 600)\<lparr>hMin := Num 500, hMax := Num 4500\<rparr>) (Num 250)
        [\<lparr>pressure = Num 1000, height = Num 600, temp = Num 20, dewpoint = Num 10,
          windDir = Num 270, windSpeed = Num 5\<rparr>,
         \<lparr>pressure = Num 850, height = NaN, temp = Num 10, dewpoint = Num 5,
          windDir = Num 280, windSpeed = Num 10\<rparr>,
         \<lparr>pressure = Num 700, height = Num 3000, temp = Num 0, dewpoint = Num (- 5),
          windDir = Num 290, windSpeed = Num 15\<rparr>] (Num (- 10000)) []
      = [\<lparr>pressure = Num 1000, height = Num 600, temp = Num 20, dewpoint = Num 10,
          windDir = Num 270, windSpeed = Num 5\<rparr>,
         \<lparr>pressure = Num 700, height = Num 3000, temp = Num 0, dewpoint = Num (- 5),
          windDir = Num 290, windSpeed = Num 15\<rparr>]"
proof
  define r0 where "r0 = \<lparr>pressure = Num 1000, height = Num 600, temp = Num 20, dewpoint = Num 10,
                  windDir = Num 270, windSpeed = Num 5\<rparr>"
  define r1 where "r1 = \<lparr>pressure = Num 850, height = NaN, temp = Num 10, dewpoint = Num 5,
                  windDir = Num 280, windSpeed = Num 10\<rparr>"
  define r2 where "r2 = \<lparr>pressure = Num 700, height = Num 3000, temp = Num 0, dewpoint = Num (- 5),
                  windDir = Num 290, windSpeed = Num 15\<rparr>"
  define rows where "rows = [r0, r1, r2]"
  define sd where "sd = \<lparr>data = Some rows, metadata = None\<rparr>"
  define d1 where "d1 = setHeightRange (SkewTDiagram 800 600) (Num 500) (Num 4500)"
  define d2 where "d2 = d1\<lparr>soundingData := Some sd\<rparr>"
  have b: "hMin d1 = Num 500" "hMax d1 = Num 4500" "pMin d1 = Num 100" "pMax d1 = Num 1050"
    by (simp_all add: d1_def setHeightRange_def SkewTDiagram_def)
  have fl: "data sd = Some rows" "rows \<noteq> []" "\<forall>r\<in>set rows. isFinite (windSpeed r)"
    by (simp_all add: sd_def rows_def r0_def r1_def r2_def)
  from draw_returns [OF b fl]
  obtain frame barbs where out: "snd (draw d1 (Some sd))
      = Some (Inr (frame @ drawTemperatureProfile d2 rows @ drawDewpointProfile d2 rows
                   @ barbs @ drawTitle d2 (metadata sd)))"
    unfolding d2_def by blast
  have v0: "tempToX d2 (temp r0) (pressure r0)
              = Num (100 + 550 * (80 / 110)) + Num (35 * (ln 1050 - ln 1000))"
    "heightToY d2 (height r0) = Num 537.5"
    by (simp_all add: d2_def d1_def setHeightRange_def r0_def SkewTDiagram_def tempToX_def
          baseX_def skewOffset_def heightToY_def Let_def)
  have v1: "tempToX d2 (temp r1) (pressure r1)
              = Num (100 + 550 * (70 / 110)) + Num (35 * (ln 1050 - ln 850))"
    "heightToY d2 (height r1) = NaN"
    by (simp_all add: d2_def d1_def setHeightRange_def r1_def SkewTDiagram_def tempToX_def
          baseX_def skewOffset_def heightToY_NaN Let_def)
  have v2: "tempToX d2 (temp r2) (pressure r2)
              = Num (100 + 550 * (60 / 110)) + Num (35 * (ln 1050 - ln 700))"
    "heightToY d2 (height r2) = Num 237.5"
    by (simp_all add: d2_def d1_def setHeightRange_def r2_def SkewTDiagram_def tempToX_def
          baseX_def skewOffset_def heightToY_def Let_def)
  have keep: "filter (\<lambda>row. \<not> (isNaN (temp row) \<or> pressure row < pMin d2 \<or> pressure row > pMax d2
                              \<or> height row < hMin d2 \<or> height row > hMax d2)) rows = rows"
    by (simp add: rows_def r0_def r1_def r2_def d2_def b)
  have tp: "drawTemperatureProfile d2 rows
      = [StrokeStyle ''#ff0000'', LineWidth (Num 2.5), BeginPath,
              MoveTo (Num (100 + 550 * (80 / 110)) + Num (35 * (ln 1050 - ln 1000))) (Num 537.5),
              LineTo (Num (100 + 550 * (70 / 110)) + Num (35 * (ln 1050 - ln 850))) NaN,
              LineTo (Num (100 + 550 * (60 / 110)) + Num (35 * (ln 1050 - ln 700))) (Num 237.5),
              Stroke]"
    unfolding drawTemperatureProfile_def temperatureRows_polyline keep
    using v0 v1 v2 by (simp add: rows_def)
  have "snd (draw d1 (Some sd))
      = Some (Inr (frame
           @ [StrokeStyle ''#ff0000'', LineWidth (Num 2.5), BeginPath,
              MoveTo (Num (100 + 550 * (80 / 110)) + Num (35 * (ln 1050 - ln 1000))) (Num 537.5),
              LineTo (Num (100 + 550 * (70 / 110)) + Num (35 * (ln 1050 - ln 850))) NaN,
              LineTo (Num (100 + 550 * (60 / 110)) + Num (35 * (ln 1050 - ln 700))) (Num 237.5),
              Stroke]
           @ (drawDewpointProfile d2 rows @ barbs @ drawTitle d2 (metadata sd))))"
    unfolding out tp by simp
  then show "\<exists>before after.
      snd (draw (setHeightRange (SkewTDiagram 800 600) (Num 500) (Num 4500))
             (Some \<lparr>data = Some
                [\<lparr>pressure = Num 1000, height = Num 600, temp = Num 20, dewpoint = Num 10,
                  windDir = Num 270, windSpeed = Num 5\<rparr>,
                 \<lparr>pressure = Num 850, height = NaN, temp = Num 10, dewpoint = Num 5,
                  windDir = Num 280, windSpeed = Num 10\<rparr>,
                 \<lparr>pressure = Num 700, height = Num 3000, temp = Num 0, dewpoint = Num (- 5),
                  windDir = Num 290, windSpeed = Num 15\<rparr>], metadata = None\<rparr>))
      = Some (Inr (before
           @ [StrokeStyle ''#ff0000'', LineWidth (Num 2.5), BeginPath,
              MoveTo (Num (100 + 550 * (80 / 110)) + Num (35 * (ln 1050 - ln 1000))) (Num 537.5),
              LineTo (Num (100 + 550 * (70 / 110)) + Num (35 * (ln 1050 - ln 850))) NaN,
              LineTo (Num (100 + 550 * (60 / 110)) + Num (35 * (ln 1050 - ln 700))) (Num 237.5),
              Stroke]
           @ after))"
    unfolding d1_def sd_def rows_def r0_def r1_def r2_def by blast
next
  show "windRows ((SkewTDiagram 800 600)\<lparr>hMin := Num 500, hMax := Num 4500\<rparr>) (Num 250)
        [\<lparr>pressure = Num 1000, height = Num 600, temp = Num 20, dewpoint = Num 10,
          windDir = Num 270, windSpeed = Num 5\<rparr>,
         \<lparr>pressure = Num 850, height = NaN, temp = Num 10, dewpoint = Num 5,
          windDir = Num 280, windSpeed = Num 10\<rparr>,
         \<lparr>pressure = Num 700, height = Num 3000, temp = Num 0, dewpoint = Num (- 5),
          windDir = Num 290, windSpeed = Num 15\<rparr>] (Num (- 10000)) []
      = [\<lparr>pressure = Num 1000, height = Num 600, temp = Num 20, dewpoint = Num 10,
          windDir = Num 270, windSpeed = Num 5\<rparr>,
         \<lparr>pressure = Num 700, height = Num 3000, temp = Num 0, dewpoint = Num (- 5),
          windDir = Num 290, windSpeed = Num 15\<rparr>]"
    by (simp add: SkewTDiagram_def)
qed

end
